theory Spec2Isabelle
  imports Complex_Main "HOL-Library.Word"
begin

unbundle bit_operations_syntax

section \<open>Data model of \<^verbatim>\<open>srl_vdp2.hpp\<close>\<close>

text \<open>
  Pointers of the 32-bit target are \<open>32 word\<close> values; \<open>nullptr\<close> is the word 0.
  \<open>uint32_t\<close>, \<open>uint16_t\<close> and \<open>uint8_t\<close> are words of that width with wrapping
  arithmetic; \<open>int8_t\<close> is an \<open>8 word\<close> read through \<open>sint\<close>.
\<close>

type_synonym ptr = "32 word"

definition nullptr :: ptr where
  "nullptr = 0"

text \<open>\<^verbatim>\<open>enum class VramBank : uint16_t { A0 = 0, A1 = 1, B0 = 2, B1 = 3 }\<close>\<close>

datatype VramBank = A0 | A1 | B0 | B1

text \<open>
  The template parameter \<open>Id\<close> of \<^verbatim>\<open>ScrollScreen<ScreenType, Id, On>\<close>: one of the five
  SGL screen identifiers the header instantiates the template with.
\<close>

datatype ScreenId = scnNBG0 | scnNBG1 | scnNBG2 | scnNBG3 | scnRBG0

text \<open>
  Modelled from the spec: the colour format \<^verbatim>\<open>CRAM::TextureColorMode\<close>, declared in
  \<^verbatim>\<open>srl_cram.hpp\<close> (4-bit indexed, 8-bit indexed, 15-bit direct colour). The three
  enumerators this header names are kept; \<open>OtherColorMode\<close> stands for any enumerator it
  does not name (the \<^verbatim>\<open>switch\<close> of \<open>AutoAllocateCell\<close> has no \<^verbatim>\<open>default\<close>).
\<close>

datatype TextureColorMode = Paletted16 | Paletted256 | RGB555 | OtherColorMode

text \<open>
  Modelled from the spec: the tilemap geometry \<^verbatim>\<open>Tilemap::TilemapInfo\<close>, declared in
  \<^verbatim>\<open>srl_tilemap_interfaces.hpp\<close> (width and height in tiles, cell size class, colour
  format, plane size class, map-entry word width, cell byte size). The fields are the
  ones this header reads; their widths follow the use sites (\<open>Map2VRAM\<close> counts rows and
  columns in \<open>uint16_t\<close>, \<open>Allocate\<close> and \<open>Cell2VRAM\<close> take a \<open>uint32_t\<close> size).
\<close>

record TilemapInfo =
  ColorMode :: TextureColorMode
  CharSize :: "16 word"
  MapMode :: "16 word"
  PlaneSize :: "16 word"
  MapHeight :: "16 word"
  MapWidth :: "16 word"
  CellByteSize :: "32 word"

text \<open>
  Modelled from the spec: the palette slot object \<^verbatim>\<open>CRAM::Palette\<close>, declared in
  \<^verbatim>\<open>srl_cram.hpp\<close>, as the colour format and the slot identifier it is bound to. The
  layer's \<open>TilePalette\<close> is an option: \<open>None\<close> is the default-constructed
  \<^verbatim>\<open>CRAM::Palette()\<close>, whose \<open>GetData()\<close> is \<open>nullptr\<close> (the layer holds no palette).
\<close>

record Palette =
  palMode :: TextureColorMode
  palId :: int

text \<open>
  The constants and default values that the header takes from the SGL headers and from
  other SRL headers: the four bank addresses, the cell size, map-entry mode and plane
  size codes it compares with, the enable bit \<open>On\<close> of each screen class and \<open>SPRON\<close>, the
  identifier of a default-constructed palette and the default-constructed
  \<open>TilemapInfo\<close>. None is defined in this header: they are parameters of the model.
\<close>

record SDK =
  VDP2_VRAM_A0 :: "32 word"
  VDP2_VRAM_A1 :: "32 word"
  VDP2_VRAM_B0 :: "32 word"
  VDP2_VRAM_B1 :: "32 word"
  CHAR_SIZE_1x1 :: "16 word"
  PNB_2WORD :: "16 word"
  PL_SIZE_2x1 :: "16 word"
  PL_SIZE_2x2 :: "16 word"
  ScreenON :: "ScreenId \<Rightarrow> 16 word"
  SPRON :: "16 word"
  DefaultPaletteId :: "8 word"
  DefaultInfo :: TilemapInfo

text \<open>
  Everything the header hands to SGL (write-only register operations), to the palette
  collaborator, to the assert screen or to video memory, in the order of the calls.
  \<open>slCharScr\<close>, \<open>slPageScr\<close> and \<open>slPlaneScr\<close> stand for the per-screen SGL functions
  (\<open>slCharNbg0\<close>, ..., \<open>slCharRbg0\<close>, and so on), \<open>slMapNbg\<close> for \<open>slMapNbg0..3\<close>; a
  \<open>Write\<close> is a store through a VRAM pointer of that width.
\<close>

datatype Call =
    Assert string
  | SetBankUsedState int TextureColorMode bool
  | PaletteLoad int nat
  | slMapNbg ScreenId ptr ptr ptr ptr
  | sl1MapRA ptr
  | slCharScr ScreenId TextureColorMode "16 word"
  | slPageScr ScreenId ptr "Palette option" "16 word"
  | slPlaneScr ScreenId "16 word"
  | slRparaModeRA
  | slOverRA0
  | slPopMatrix
  | slColRate ScreenId "16 word"
  | slColorCalcOn "16 word"
  | Write8 ptr "8 word"
  | Write16 ptr "16 word"
  | Write32 ptr "32 word"

text \<open>The static members of one \<^verbatim>\<open>ScrollScreen\<close> instantiation.\<close>

record ScrollScreen =
  CellAddress :: ptr
  MapAddress :: ptr
  TilePalette :: "Palette option"
  Info :: TilemapInfo
  CellAllocSize :: "32 word"
  MapAllocSize :: "32 word"

text \<open>
  The process-wide state: the static members of \<open>VDP2::VRAM\<close>, of the five scroll
  screens, the colour calculation mask, the \<open>VDP2_RAMCTL\<close> register and the log of calls.
\<close>

record VDP2 =
  currentBot :: "VramBank \<Rightarrow> ptr"
  currentTop :: "VramBank \<Rightarrow> ptr"
  bankCycles :: "VramBank \<Rightarrow> 8 word"
  screens :: "ScreenId \<Rightarrow> ScrollScreen"
  NBG0_LineAddress :: ptr
  NBG1_LineAddress :: ptr
  RBG0_KtableAddress :: ptr
  ColorCalcScrolls :: "16 word"
  VDP2_RAMCTL :: "16 word"
  calls :: "Call list"

section \<open>\<open>VDP2::VRAM\<close>\<close>

text \<open>\<open>bankBot\<close> and \<open>bankTop\<close> are never written: they are functions of the constants.\<close>

fun bankBot :: "SDK \<Rightarrow> VramBank \<Rightarrow> ptr" where
  "bankBot K A0 = VDP2_VRAM_A0 K"
| "bankBot K A1 = VDP2_VRAM_A1 K"
| "bankBot K B0 = VDP2_VRAM_B0 K"
| "bankBot K B1 = VDP2_VRAM_B1 K"

fun bankTop :: "SDK \<Rightarrow> VramBank \<Rightarrow> ptr" where
  "bankTop K A0 = VDP2_VRAM_A1 K"
| "bankTop K A1 = VDP2_VRAM_B0 K"
| "bankTop K B0 = VDP2_VRAM_B1 K"
| "bankTop K B1 = VDP2_VRAM_B1 K + 0x18000"

text \<open>\<open>(int)currentTop[bank] - (int)currentBot[bank]\<close>, returned as \<open>uint32_t\<close>.\<close>

definition GetAvailable :: "VramBank \<Rightarrow> VDP2 \<Rightarrow> 32 word" where
  "GetAvailable bank s = currentTop s bank - currentBot s bank"

text \<open>The local \<open>addrOffset\<close> of \<open>Allocate\<close>: the padding up to the requested boundary.\<close>

definition addrOffset :: "ptr \<Rightarrow> 32 word \<Rightarrow> 32 word" where
  "addrOffset cur boundary =
     (if cur AND (boundary - 1) \<noteq> 0 then boundary - (cur AND (boundary - 1)) else 0)"

text \<open>
  \<open>Allocate\<close> returns the address and the state. The sum \<open>bankCycles[bank] + cycles\<close> is
  taken in \<open>int\<close> (\<open>int8_t\<close> and \<open>uint8_t\<close> are promoted); the store back into the
  \<open>int8_t\<close> counter keeps the low 8 bits.
\<close>

definition Allocate :: "32 word \<Rightarrow> 32 word \<Rightarrow> VramBank \<Rightarrow> 8 word \<Rightarrow> VDP2 \<Rightarrow> ptr \<times> VDP2" where
  "Allocate sz boundary bank cycles s =
     (let off = addrOffset (currentBot s bank) boundary in
      if sz + off \<le> GetAvailable bank s then
        if sint (bankCycles s bank) + uint cycles < 8 then
          (currentBot s bank + off,
           s\<lparr>currentBot := (currentBot s)(bank := currentBot s bank + (sz + off)),
             bankCycles := (bankCycles s)(bank := bankCycles s bank + cycles)\<rparr>)
        else (nullptr, s)
      else (nullptr, s))"

text \<open>
  \<^verbatim>\<open>SRL::Debug::Assert(message)\<close> expands to \<open>AssertScreen\<close>, which draws the assert
  screen (in a \<open>DEBUG\<close> build), plays its 36-frame animation and returns: the caller
  goes on. The model logs the message.
\<close>

definition DebugAssert :: "string \<Rightarrow> VDP2 \<Rightarrow> VDP2" where
  "DebugAssert message s = s\<lparr>calls := calls s @ [Assert message]\<rparr>"

text \<open>\<^verbatim>\<open>if (alloc == nullptr) alloc = VRAM::Allocate(...)\<close>\<close>

definition IfNull :: "ptr \<times> VDP2 \<Rightarrow> (VDP2 \<Rightarrow> ptr \<times> VDP2) \<Rightarrow> ptr \<times> VDP2" where
  "IfNull r f = (if fst r = nullptr then f (snd r) else r)"

text \<open>\<^verbatim>\<open>if (alloc == nullptr) SRL::Debug::Assert(message)\<close>\<close>

definition AssertIfNull :: "string \<Rightarrow> ptr \<times> VDP2 \<Rightarrow> ptr \<times> VDP2" where
  "AssertIfNull message r = (if fst r = nullptr then (fst r, DebugAssert message (snd r)) else r)"

text \<open>The \<^verbatim>\<open>switch (info.ColorMode)\<close> of \<open>AutoAllocateCell\<close>; \<open>reqCycles\<close> starts at 0.\<close>

fun reqCycles :: "TextureColorMode \<Rightarrow> 8 word" where
  "reqCycles Paletted16 = 1"
| "reqCycles Paletted256 = 2"
| "reqCycles RGB555 = 4"
| "reqCycles OtherColorMode = 0"

definition AutoAllocateCell :: "TilemapInfo \<Rightarrow> ScreenId \<Rightarrow> VDP2 \<Rightarrow> ptr \<times> VDP2" where
  "AutoAllocateCell info screen s =
     (if screen = scnRBG0 then
        AssertIfNull ''RBG Cell Allocation failed: insufficient VRAM''
          (IfNull (IfNull (IfNull (Allocate (CellByteSize info) 32 A0 8 s)
             (Allocate (CellByteSize info) 32 A1 8))
             (Allocate (CellByteSize info) 32 B0 8))
             (Allocate (CellByteSize info) 32 B1 8))
      else
        AssertIfNull ''NBG Cell Allocation failed: insufficient VRAM''
          (IfNull (IfNull (IfNull (Allocate (CellByteSize info) 32 B0 (reqCycles (ColorMode info)) s)
             (Allocate (CellByteSize info) 32 A1 (reqCycles (ColorMode info))))
             (Allocate (CellByteSize info) 32 A0 (reqCycles (ColorMode info))))
             (Allocate (CellByteSize info) 32 B1 (reqCycles (ColorMode info)))))"

text \<open>
  The local \<open>sz\<close> of \<open>AutoAllocateMap\<close>:
  \<^verbatim>\<open>uint32_t sz = (info.MapHeight * info.MapWidth) << 1; if (info.MapMode == PNB_2WORD) sz <<= 1;\<close>
  The product of the two promoted \<open>uint16_t\<close> values is kept to 32 bits.
\<close>

definition MapAllocSz :: "SDK \<Rightarrow> TilemapInfo \<Rightarrow> 32 word" where
  "MapAllocSz K info =
     (let sz = push_bit 1 (ucast (MapHeight info) * ucast (MapWidth info))
      in if MapMode info = PNB_2WORD K then push_bit 1 sz else sz)"

text \<open>The local \<open>page_sz\<close> of \<open>AutoAllocateMap\<close>, statement by statement.\<close>

definition MapAllocPageSz :: "SDK \<Rightarrow> TilemapInfo \<Rightarrow> 32 word" where
  "MapAllocPageSz K info =
     (let page_sz = 0x800;
          page_sz = (if CharSize info = CHAR_SIZE_1x1 K then push_bit 2 page_sz else page_sz);
          page_sz = (if MapMode info = PNB_2WORD K then push_bit 1 page_sz else page_sz)
      in if PlaneSize info = PL_SIZE_2x2 K then push_bit 2 page_sz
         else if PlaneSize info = PL_SIZE_2x1 K then push_bit 1 page_sz
         else page_sz)"

text \<open>
  \<open>AutoAllocateMap\<close> with its optional out-parameter \<open>size\<close> left at \<open>nullptr\<close>, as
  \<open>LoadTilemap\<close> calls it. \<^verbatim>\<open>if (!alloc)\<close> after the guarded first attempt sees the
  initial \<open>nullptr\<close> when the attempt was skipped.
\<close>

definition AutoAllocateMap :: "SDK \<Rightarrow> TilemapInfo \<Rightarrow> ScreenId \<Rightarrow> VDP2 \<Rightarrow> ptr \<times> VDP2" where
  "AutoAllocateMap K info screen s =
     (let sz = MapAllocSz K info; page_sz = MapAllocPageSz K info in
      if screen = scnRBG0 then
        AssertIfNull ''RBG Map Allocation failed: insufficient VRAM'' (Allocate sz page_sz A0 8 s)
      else
        AssertIfNull ''NBG Map Allocation failed: insufficient VRAM''
          (IfNull (if bankCycles s A0 \<noteq> 7 then Allocate sz page_sz A0 1 s else (nullptr, s))
             (Allocate sz page_sz B1 1)))"

text \<open>What a caller that passes a non-null \<open>size\<close> reads back: \<open>sz\<close> on success,
  nothing written on failure.\<close>

definition AutoAllocateMap_size :: "SDK \<Rightarrow> TilemapInfo \<Rightarrow> ScreenId \<Rightarrow> VDP2 \<Rightarrow> 32 word option" where
  "AutoAllocateMap_size K info screen s =
     (if fst (AutoAllocateMap K info screen s) = nullptr then None else Some (MapAllocSz K info))"

section \<open>\<open>VDP2::ScrollScreen\<close>\<close>

text \<open>Update of the static members of one screen.\<close>

definition screen_upd :: "ScreenId \<Rightarrow> (ScrollScreen \<Rightarrow> ScrollScreen) \<Rightarrow> VDP2 \<Rightarrow> VDP2" where
  "screen_upd scr f s = s\<lparr>screens := (screens s)(scr := f (screens s scr))\<rparr>"

text \<open>
  The operand types of the header's address arithmetic and the type of the built-in
  binary \<open>+\<close> on them: two integers add, an integer is added to a \<open>void*\<close> in bytes (the
  GCC extension that \<open>Allocate\<close> relies on), and there is no \<open>+\<close> of two pointers.
\<close>

datatype CType = VoidPtr | UInt32

fun plus_type :: "CType \<Rightarrow> CType \<Rightarrow> CType option" where
  "plus_type UInt32 UInt32 = Some UInt32"
| "plus_type VoidPtr UInt32 = Some VoidPtr"
| "plus_type UInt32 VoidPtr = Some VoidPtr"
| "plus_type VoidPtr VoidPtr = None"

text \<open>
  \<open>GetPageAddress\<close> is a member of the class template and is checked when it is
  instantiated. Its last statement is \<^verbatim>\<open>return ScreenType::MapAddress + (void*)offset;\<close>:
  the left operand is the \<open>void*\<close> member, the right one the offset cast to \<open>void*\<close>.
  The result is \<open>None\<close> when that sum has no type: the function then has no
  instantiation, and a program that calls it is not compiled. Otherwise it is the value
  the statements compute.
\<close>

definition GetPageAddress :: "SDK \<Rightarrow> ScreenId \<Rightarrow> 8 word \<Rightarrow> VDP2 \<Rightarrow> ptr option" where
  "GetPageAddress K scr index s =
     (case plus_type VoidPtr VoidPtr of
        None \<Rightarrow> None
      | Some t \<Rightarrow>
          Some (if MapAddress (screens s scr) < VDP2_VRAM_A0 K then nullptr
                else
                  let offset = 2048 * ucast index;
                      offset = (if CharSize (Info (screens s scr)) = CHAR_SIZE_1x1 K then push_bit 2 offset else offset);
                      offset = (if MapMode (Info (screens s scr)) = PNB_2WORD K then push_bit 1 offset else offset)
                  in MapAddress (screens s scr) + offset))"

text \<open>
  \<open>GetPlaneAddress\<close> ends in \<^verbatim>\<open>return (void*)((uint32_t)ScreenType::MapAddress + offset);\<close>,
  a sum of two \<open>uint32_t\<close>.
\<close>

definition GetPlaneAddress :: "SDK \<Rightarrow> ScreenId \<Rightarrow> 8 word \<Rightarrow> VDP2 \<Rightarrow> ptr" where
  "GetPlaneAddress K scr index s =
     (if MapAddress (screens s scr) < VDP2_VRAM_A0 K then nullptr
      else
        let offset = 2048 * ucast index;
            offset = (if CharSize (Info (screens s scr)) = CHAR_SIZE_1x1 K then push_bit 2 offset else offset);
            offset = (if MapMode (Info (screens s scr)) = PNB_2WORD K then push_bit 1 offset else offset);
            offset = (if PlaneSize (Info (screens s scr)) = PL_SIZE_2x2 K then push_bit 2 offset
                      else if PlaneSize (Info (screens s scr)) = PL_SIZE_2x1 K then push_bit 1 offset
                      else offset)
        in MapAddress (screens s scr) + offset)"

text \<open>\<open>ScreenType::SetPlanes\<close>: \<open>slMapNbg0..3\<close> for the four NBG classes, \<open>sl1MapRA(a)\<close>
  for \<open>RBG0\<close>.\<close>

definition SetPlanes :: "ScreenId \<Rightarrow> ptr \<Rightarrow> ptr \<Rightarrow> ptr \<Rightarrow> ptr \<Rightarrow> VDP2 \<Rightarrow> VDP2" where
  "SetPlanes scr a b c d s =
     (if scr = scnRBG0 then s\<lparr>calls := calls s @ [sl1MapRA a]\<rparr>
      else s\<lparr>calls := calls s @ [slMapNbg scr a b c d]\<rparr>)"

definition SetMapLayout :: "SDK \<Rightarrow> ScreenId \<Rightarrow> 8 word \<Rightarrow> 8 word \<Rightarrow> 8 word \<Rightarrow> 8 word \<Rightarrow> VDP2 \<Rightarrow> VDP2" where
  "SetMapLayout K scr a b c d s =
     SetPlanes scr (GetPlaneAddress K scr a s) (GetPlaneAddress K scr b s)
       (GetPlaneAddress K scr c s) (GetPlaneAddress K scr d s) s"

text \<open>The locals \<open>mapX\<close> and \<open>mapY\<close> of \<open>SetPlanesDefault\<close> (\<open>int\<close>), after the two
  adjustments.\<close>

definition PlaneExtent :: "SDK \<Rightarrow> TilemapInfo \<Rightarrow> int \<times> int" where
  "PlaneExtent K info =
     (let mapX = 32; mapY = 32;
          (mapX, mapY) = (if CharSize info = CHAR_SIZE_1x1 K then (mapX * 2, mapY * 2) else (mapX, mapY))
      in if PlaneSize info = PL_SIZE_2x2 K then (mapX * 2, mapY * 2)
         else if PlaneSize info = PL_SIZE_2x1 K then (mapX * 2, mapY)
         else (mapX, mapY))"

text \<open>The arguments of the \<open>SetMapLayout\<close> call that \<open>SetPlanesDefault\<close> selects.\<close>

definition PlanesDefault :: "SDK \<Rightarrow> TilemapInfo \<Rightarrow> 8 word \<times> 8 word \<times> 8 word \<times> 8 word" where
  "PlanesDefault K info =
     (let (mapX, mapY) = PlaneExtent K info in
      if uint (MapWidth info) > mapX then
        if uint (MapHeight info) > mapY then (0, 1, 2, 3) else (0, 1, 0, 1)
      else
        if uint (MapHeight info) > mapY then (0, 0, 1, 1) else (0, 0, 0, 0))"

definition SetPlanesDefault :: "SDK \<Rightarrow> ScreenId \<Rightarrow> TilemapInfo \<Rightarrow> VDP2 \<Rightarrow> VDP2" where
  "SetPlanesDefault K scr info s =
     (case PlanesDefault K info of (a, b, c, d) \<Rightarrow> SetMapLayout K scr a b c d s)"

text \<open>\<open>SetCellAddress\<close> and \<open>SetMapAddress\<close> store a user-assigned region; the \<open>int\<close> size
  is kept as a 32-bit word. Each echoes the address.\<close>

definition SetCellAddress :: "ScreenId \<Rightarrow> ptr \<Rightarrow> 32 word \<Rightarrow> VDP2 \<Rightarrow> ptr \<times> VDP2" where
  "SetCellAddress scr address sz s =
     (address, screen_upd scr (\<lambda>sc. sc\<lparr>CellAddress := address, CellAllocSize := sz\<rparr>) s)"

definition SetMapAddress :: "ScreenId \<Rightarrow> ptr \<Rightarrow> 32 word \<Rightarrow> VDP2 \<Rightarrow> ptr \<times> VDP2" where
  "SetMapAddress scr address sz s =
     (address, screen_upd scr (\<lambda>sc. sc\<lparr>MapAddress := address, MapAllocSize := sz\<rparr>) s)"

text \<open>
  \<open>GetCellOffset\<close> reads the screen's static \<open>Info\<close>, not its parameter \<open>tile\<close>.
  \<^verbatim>\<open>!MapMode\<close> is the two-word mode, \<^verbatim>\<open>MapMode == 0x8000\<close> one-word mode 0, anything
  else one-word mode 1; a non-zero \<open>CharSize\<close> is the 2x2 cell.
\<close>

definition GetCellOffset :: "SDK \<Rightarrow> ScreenId \<Rightarrow> TilemapInfo \<Rightarrow> ptr \<Rightarrow> VDP2 \<Rightarrow> 32 word" where
  "GetCellOffset K scr tile cellAddress s =
     (if MapMode (Info (screens s scr)) = 0 then drop_bit 5 (cellAddress - VDP2_VRAM_A0 K)
      else if MapMode (Info (screens s scr)) = 0x8000 then
        (if CharSize (Info (screens s scr)) \<noteq> 0
         then drop_bit 7 ((cellAddress - VDP2_VRAM_A0 K) AND 0x1FFFF)
         else drop_bit 5 ((cellAddress - VDP2_VRAM_A0 K) AND 0x7FFF))
      else
        (if CharSize (Info (screens s scr)) \<noteq> 0
         then drop_bit 7 (cellAddress - VDP2_VRAM_A0 K)
         else drop_bit 5 ((cellAddress - VDP2_VRAM_A0 K) AND 0x1FFFF)))"

text \<open>\<open>Cell2VRAM\<close>: \<^verbatim>\<open>for (uint32_t i = 0; i < size; i++) *(VRAM++) = *(cellData++);\<close>
  The source buffer is the map from an index to the byte at \<open>cellData + i\<close>.\<close>

function Cell2VRAM_from :: "(nat \<Rightarrow> 8 word) \<Rightarrow> ptr \<Rightarrow> 32 word \<Rightarrow> nat \<Rightarrow> VDP2 \<Rightarrow> VDP2" where
  "Cell2VRAM_from cellData cellAdr sz i s =
     (if i < unat sz
      then Cell2VRAM_from cellData cellAdr sz (Suc i)
             (s\<lparr>calls := calls s @ [Write8 (cellAdr + of_nat i) (cellData i)]\<rparr>)
      else s)"
  by pat_completeness auto
termination
  by (relation "measure (\<lambda>(cellData, cellAdr, sz, i, s). unat sz - i)") auto

definition Cell2VRAM :: "(nat \<Rightarrow> 8 word) \<Rightarrow> ptr \<Rightarrow> 32 word \<Rightarrow> VDP2 \<Rightarrow> VDP2" where
  "Cell2VRAM cellData cellAdr sz s = Cell2VRAM_from cellData cellAdr sz 0 s"

text \<open>
  \<open>Map2VRAM\<close>. The source buffer is the map from an index to the \<open>uint16_t\<close> at
  \<open>mapData + i\<close>; \<open>Data32\<close> reads the same buffer as big-endian \<open>uint32_t\<close> (the SH-2 is
  big-endian). The cursors \<open>VRAM\<close> and \<open>mapData\<close> advance together, by the count \<open>k16\<close>;
  \<open>VRAM32\<close> and \<open>Data32\<close> advance together, by the count \<open>k32\<close>.
\<close>

definition Data32 :: "(nat \<Rightarrow> 16 word) \<Rightarrow> nat \<Rightarrow> 32 word" where
  "Data32 mapData k = word_cat (mapData (2 * k)) (mapData (2 * k + 1))"

text \<open>The body of the inner loop:
  \<^verbatim>\<open>if (info.MapMode) *VRAM++ = ((*mapData++) + mapoff) | (paloff << 12);\<close>
  \<^verbatim>\<open>else *VRAM32++ = ((*Data32++) + mapoff) | (paloff << 20);\<close>\<close>

definition Map2VRAM_body ::
  "TilemapInfo \<Rightarrow> (nat \<Rightarrow> 16 word) \<Rightarrow> ptr \<Rightarrow> 8 word \<Rightarrow> 32 word \<Rightarrow> nat \<times> nat \<times> VDP2 \<Rightarrow> nat \<times> nat \<times> VDP2" where
  "Map2VRAM_body info mapData mapAdr paloff mapoff c =
     (case c of (k16, k32, s) \<Rightarrow>
        if MapMode info \<noteq> 0 then
          (Suc k16, k32,
           s\<lparr>calls := calls s @
              [Write16 (mapAdr + 2 * of_nat k16)
                 (ucast ((ucast (mapData k16) + mapoff) OR push_bit 12 (ucast paloff :: 32 word)))]\<rparr>)
        else
          (k16, Suc k32,
           s\<lparr>calls := calls s @
              [Write32 (mapAdr + 4 * of_nat k32)
                 ((Data32 mapData k32 + mapoff) OR push_bit 20 (ucast paloff))]\<rparr>))"

function Map2VRAM_cols ::
  "TilemapInfo \<Rightarrow> (nat \<Rightarrow> 16 word) \<Rightarrow> ptr \<Rightarrow> 8 word \<Rightarrow> 32 word \<Rightarrow> nat \<Rightarrow> nat \<times> nat \<times> VDP2 \<Rightarrow> nat \<times> nat \<times> VDP2" where
  "Map2VRAM_cols info mapData mapAdr paloff mapoff j c =
     (if j < unat (MapWidth info)
      then Map2VRAM_cols info mapData mapAdr paloff mapoff (Suc j)
             (Map2VRAM_body info mapData mapAdr paloff mapoff c)
      else c)"
  by pat_completeness auto
termination
  by (relation "measure (\<lambda>(info, mapData, mapAdr, paloff, mapoff, j, c). unat (MapWidth info) - j)") auto

function Map2VRAM_rows ::
  "TilemapInfo \<Rightarrow> (nat \<Rightarrow> 16 word) \<Rightarrow> ptr \<Rightarrow> 8 word \<Rightarrow> 32 word \<Rightarrow> nat \<Rightarrow> nat \<times> nat \<times> VDP2 \<Rightarrow> nat \<times> nat \<times> VDP2" where
  "Map2VRAM_rows info mapData mapAdr paloff mapoff i c =
     (if i < unat (MapHeight info)
      then Map2VRAM_rows info mapData mapAdr paloff mapoff (Suc i)
             (Map2VRAM_cols info mapData mapAdr paloff mapoff 0 c)
      else c)"
  by pat_completeness auto
termination
  by (relation "measure (\<lambda>(info, mapData, mapAdr, paloff, mapoff, i, c). unat (MapHeight info) - i)") auto

definition Map2VRAM ::
  "TilemapInfo \<Rightarrow> (nat \<Rightarrow> 16 word) \<Rightarrow> ptr \<Rightarrow> 8 word \<Rightarrow> 32 word \<Rightarrow> VDP2 \<Rightarrow> VDP2" where
  "Map2VRAM info mapData mapAdr paloff mapoff s =
     snd (snd (Map2VRAM_rows info mapData mapAdr paloff mapoff 0 (0, 0, s)))"

text \<open>\<open>ScreenType::Init\<close>: the SGL calls of \<open>NBG0..NBG3::Init\<close> and of \<open>RBG0::Init\<close>.
  \<open>info.SGLColorMode()\<close> is logged as the colour mode it converts.\<close>

definition Init :: "ScreenId \<Rightarrow> TilemapInfo \<Rightarrow> VDP2 \<Rightarrow> VDP2" where
  "Init scr info s =
     (let sc = screens s scr in
      if scr = scnRBG0 then
        s\<lparr>calls := calls s @
           [slRparaModeRA, slOverRA0,
            slCharScr scr (ColorMode info) (CharSize info),
            slPageScr scr (CellAddress sc) (TilePalette sc) (MapMode info),
            slPlaneScr scr (PlaneSize info),
            sl1MapRA (MapAddress sc),
            slPopMatrix]\<rparr>
      else
        s\<lparr>calls := calls s @
           [slCharScr scr (ColorMode info) (CharSize info),
            slPageScr scr (CellAddress sc) (TilePalette sc) (MapMode info),
            slPlaneScr scr (PlaneSize info),
            slMapNbg scr (MapAddress sc) (MapAddress sc) (MapAddress sc) (MapAddress sc)]\<rparr>)"

text \<open>\<open>TilePalette.GetId()\<close> as the \<open>uint8_t\<close> argument \<open>paloff\<close> of \<open>Map2VRAM\<close>.\<close>

definition Palette_GetId :: "SDK \<Rightarrow> Palette option \<Rightarrow> 8 word" where
  "Palette_GetId K p = (case p of None \<Rightarrow> DefaultPaletteId K | Some q \<Rightarrow> word_of_int (palId q))"

text \<open>Modelled from the spec: the tile and map source \<^verbatim>\<open>Tilemap::ITilemap\<close>, declared
  in \<^verbatim>\<open>srl_tilemap_interfaces.hpp\<close>, as its geometry and its cell and map buffers (the
  palette buffer goes to the palette collaborator unread).\<close>

record ITilemap =
  GetInfo :: TilemapInfo
  GetCellData :: "nat \<Rightarrow> 8 word"
  GetMapData :: "nat \<Rightarrow> 16 word"

text \<open>
  \<open>LoadTilemap\<close>, in the four parts of its body. Each of the first three returns whether
  the function goes on (\<open>False\<close>: it executed \<^verbatim>\<open>return\<close>).

  Map address, lines 350 to 360.
\<close>

definition LoadTilemap_map :: "SDK \<Rightarrow> ScreenId \<Rightarrow> TilemapInfo \<Rightarrow> VDP2 \<Rightarrow> bool \<times> VDP2" where
  "LoadTilemap_map K scr myInfo s =
     (let inf = Info (screens s scr) in
      if MapAddress (screens s scr) < VDP2_VRAM_A0 K then
        (case AutoAllocateMap K myInfo scr s of (a, s1) \<Rightarrow>
           (\<not> a < VDP2_VRAM_A0 K, screen_upd scr (\<lambda>sc. sc\<lparr>MapAddress := a\<rparr>) s1))
      else if sint (MapAllocSize (screens s scr))
                < sint (push_bit (1 + (if MapMode inf = 0 then 1 else 0))
                          (ucast (MapWidth inf) * ucast (MapHeight inf) :: 32 word))
      then (False, DebugAssert ''Tilemap Load Failed- MAP DATA exceeds existing VRAM allocation'' s)
      else (True, s))"

text \<open>Cell address, lines 362 to 376. \<open>CellAllocSize\<close> (\<open>int\<close>) is compared with the
  \<open>uint32_t\<close> \<open>CellByteSize\<close> as unsigned.\<close>

definition LoadTilemap_cell :: "SDK \<Rightarrow> ScreenId \<Rightarrow> TilemapInfo \<Rightarrow> VDP2 \<Rightarrow> bool \<times> VDP2" where
  "LoadTilemap_cell K scr myInfo s =
     (if CellAddress (screens s scr) < VDP2_VRAM_A0 K then
        (case AutoAllocateCell myInfo scr s of (a, s1) \<Rightarrow>
           let s2 = screen_upd scr (\<lambda>sc. sc\<lparr>CellAddress := a\<rparr>) s1 in
           if a < VDP2_VRAM_A0 K
           then (False, DebugAssert ''Tilemap Load Failed- CEL DATA exceeds existing VRAM allocation'' s2)
           else (True, s2))
      else if CellAllocSize (screens s scr) < CellByteSize (Info (screens s scr))
      then (False, DebugAssert ''Tilemap Load Failed- CEL DATA exceeds existing VRAM allocation'' s)
      else (True, s))"

text \<open>Palette, lines 378 to 395. \<open>freeBank\<close> is what \<open>CRAM::GetFreeBank\<close> answers when
  it is asked; the palette collaborator's own state is outside this header.\<close>

definition PaletteLoadStep :: "ScreenId \<Rightarrow> Palette \<Rightarrow> VDP2 \<Rightarrow> VDP2" where
  "PaletteLoadStep scr q s =
     (let len = (if ColorMode (Info (screens s scr)) = Paletted16 then 16 else 256)
      in s\<lparr>calls := calls s @ [PaletteLoad (palId q) len]\<rparr>)"

definition LoadTilemap_palette :: "ScreenId \<Rightarrow> int \<Rightarrow> VDP2 \<Rightarrow> bool \<times> VDP2" where
  "LoadTilemap_palette scr freeBank s =
     (let mode = ColorMode (Info (screens s scr)) in
      if mode \<noteq> RGB555 then
        (case TilePalette (screens s scr) of
           None \<Rightarrow>
             if freeBank < 0
             then (False, DebugAssert ''Tilemap Palette Load Failed- no CRAM Palettes available'' s)
             else
               let q = \<lparr>palMode = mode, palId = freeBank\<rparr> in
               (True,
                PaletteLoadStep scr q
                  (screen_upd scr (\<lambda>sc. sc\<lparr>TilePalette := Some q\<rparr>)
                     (s\<lparr>calls := calls s @ [SetBankUsedState freeBank mode True]\<rparr>)))
         | Some q \<Rightarrow> (True, PaletteLoadStep scr q s))
      else (True, s))"

text \<open>Plane layout, transfers and register programming, lines 397 to 406.\<close>

definition LoadTilemap_transfer :: "SDK \<Rightarrow> ScreenId \<Rightarrow> ITilemap \<Rightarrow> VDP2 \<Rightarrow> VDP2" where
  "LoadTilemap_transfer K scr tilemap s =
     (let sc = screens s scr;
          s1 = (if scr \<noteq> scnRBG0 then SetPlanesDefault K scr (Info sc) s else s);
          s2 = Cell2VRAM (GetCellData tilemap) (CellAddress sc) (CellByteSize (Info sc)) s1;
          s3 = Map2VRAM (Info sc) (GetMapData tilemap) (MapAddress sc)
                 (Palette_GetId K (TilePalette sc))
                 (GetCellOffset K scr (Info sc) (CellAddress sc) s2) s2
      in Init scr (Info sc) s3)"

definition LoadTilemap :: "SDK \<Rightarrow> ScreenId \<Rightarrow> ITilemap \<Rightarrow> int \<Rightarrow> VDP2 \<Rightarrow> VDP2" where
  "LoadTilemap K scr tilemap freeBank s =
     (let myInfo = GetInfo tilemap;
          s0 = screen_upd scr (\<lambda>sc. sc\<lparr>Info := GetInfo tilemap\<rparr>) s
      in case LoadTilemap_map K scr myInfo s0 of (go, s1) \<Rightarrow>
           if \<not> go then s1
           else case LoadTilemap_cell K scr myInfo s1 of (go, s2) \<Rightarrow>
             if \<not> go then s2
             else case LoadTilemap_palette scr freeBank s2 of (go, s3) \<Rightarrow>
               if \<not> go then s3
               else LoadTilemap_transfer K scr tilemap s3)"

text \<open>
  Modelled from the spec: the fixed-point type \<^verbatim>\<open>Math::Fxp\<close> of the fixed-point
  utilities. A value is its raw \<open>int32_t\<close>, compared as signed, with 16 fractional bits:
  \<open>Fxp(1.0)\<close> is raw \<open>0x10000\<close>, the scale at which \<^verbatim>\<open>RawValue() >> 11\<close> maps the
  opacities from 0.0 to 1.0 onto the 32 ratios.
\<close>

definition Fxp_one :: "32 word" where
  "Fxp_one = 0x10000"

text \<open>The ratio handed to \<open>slColRate\<close>: \<^verbatim>\<open>31 - (uint16_t)(opacity.RawValue() >> 11)\<close>,
  passed as \<open>uint16_t\<close>.\<close>

definition ColRate :: "32 word \<Rightarrow> 16 word" where
  "ColRate opacity = 31 - ucast (signed_drop_bit 11 opacity)"

definition SetOpacity :: "SDK \<Rightarrow> ScreenId \<Rightarrow> 32 word \<Rightarrow> VDP2 \<Rightarrow> VDP2" where
  "SetOpacity K scr opacity s =
     (if sint opacity < 0 then s
      else if sint Fxp_one \<le> sint opacity then
        (let m = ColorCalcScrolls s AND NOT (ScreenON K scr)
         in s\<lparr>ColorCalcScrolls := m, calls := calls s @ [slColorCalcOn m]\<rparr>)
      else
        (let m = ColorCalcScrolls s OR ScreenON K scr
         in s\<lparr>ColorCalcScrolls := m,
              calls := calls s @ [slColRate scr (ColRate opacity),
                                  slColorCalcOn m]\<rparr>))"

section \<open>Program start and \<open>ClearVRAM\<close>\<close>

text \<open>The value \<^verbatim>\<open>(void*)(VDP2_VRAM_A0 - 1)\<close> that marks an address as not allocated.\<close>

definition unallocated :: "SDK \<Rightarrow> ptr" where
  "unallocated K = VDP2_VRAM_A0 K - 1"

text \<open>The static initialisers of a scroll screen.\<close>

definition ScrollScreen_init :: "SDK \<Rightarrow> ScrollScreen" where
  "ScrollScreen_init K =
     \<lparr>CellAddress = unallocated K, MapAddress = unallocated K, TilePalette = None,
      Info = DefaultInfo K, CellAllocSize = - 1, MapAllocSize = - 1\<rparr>"

text \<open>
  The static initialisers of the header: \<open>currentBot\<close> and \<open>currentTop\<close> start at the bank
  limits, \<^verbatim>\<open>bankCycles[4] = { -1,-1,-1,2 }\<close>, and
  \<^verbatim>\<open>ColorCalcScrolls = NBG3ON | SPRON\<close>. The reset value of \<open>VDP2_RAMCTL\<close> is not
  given by the header and is a parameter.
\<close>

definition VDP2_init :: "SDK \<Rightarrow> 16 word \<Rightarrow> VDP2" where
  "VDP2_init K ramctl =
     \<lparr>currentBot = bankBot K, currentTop = bankTop K,
      bankCycles = (\<lambda>b. case b of B1 \<Rightarrow> 2 | _ \<Rightarrow> - 1),
      screens = (\<lambda>_. ScrollScreen_init K),
      NBG0_LineAddress = unallocated K, NBG1_LineAddress = unallocated K,
      RBG0_KtableAddress = unallocated K,
      ColorCalcScrolls = ScreenON K scnNBG3 OR SPRON K,
      VDP2_RAMCTL = ramctl, calls = []\<rparr>"

text \<open>One of the five blocks of \<open>ClearVRAM\<close> that reset a screen's map and cell address
  and release its palette.\<close>

definition ClearScreen :: "SDK \<Rightarrow> ScreenId \<Rightarrow> VDP2 \<Rightarrow> VDP2" where
  "ClearScreen K scr s =
     (let s1 = s\<lparr>screens := (screens s)(scr := (screens s scr)\<lparr>MapAddress := unallocated K,
                                                             CellAddress := unallocated K\<rparr>)\<rparr>
      in case TilePalette (screens s1 scr) of
           None \<Rightarrow> s1
         | Some p \<Rightarrow>
             s1\<lparr>calls := calls s1 @ [SetBankUsedState (palId p) (ColorMode (Info (screens s1 scr))) False],
                screens := (screens s1)(scr := (screens s1 scr)\<lparr>TilePalette := None\<rparr>)\<rparr>)"

text \<open>The loop \<^verbatim>\<open>for (int i = 0; i < 4; ++i)\<close> of \<open>ClearVRAM\<close>, one bank at a time.\<close>

definition ClearBank :: "SDK \<Rightarrow> VramBank \<Rightarrow> VDP2 \<Rightarrow> VDP2" where
  "ClearBank K b s =
     s\<lparr>currentTop := (currentTop s)(b := bankTop K b),
       currentBot := (currentBot s)(b := bankBot K b),
       bankCycles := (bankCycles s)(b := - 1)\<rparr>"

definition ClearVRAM :: "SDK \<Rightarrow> VDP2 \<Rightarrow> VDP2" where
  "ClearVRAM K s =
     (let s0 = (ClearScreen K scnNBG0 s)\<lparr>NBG0_LineAddress := unallocated K\<rparr>;
          s1 = (ClearScreen K scnNBG1 s0)\<lparr>NBG1_LineAddress := unallocated K\<rparr>;
          s2 = ClearScreen K scnNBG2 s1;
          s3 = ClearScreen K scnNBG3 s2;
          s4 = (ClearScreen K scnRBG0 s3)\<lparr>RBG0_KtableAddress := unallocated K\<rparr>;
          s5 = ClearBank K B1 (ClearBank K B0 (ClearBank K A1 (ClearBank K A0 s4)));
          s6 = s5\<lparr>VDP2_RAMCTL := VDP2_RAMCTL s5 AND 0xff00\<rparr>
      in s6\<lparr>bankCycles := (bankCycles s6)(B1 := 1)\<rparr>)"

text \<open>
  The values of the constants on the Saturn: the VDP2 memory map (four banks of 0x20000
  bytes from \<open>0x25E00000\<close>) and the codes of the SGL headers. The scenarios below
  instantiate the parameters with them. The two defaults are not fixed by this header;
  any value serves.
\<close>

definition saturn :: SDK where
  "saturn =
     \<lparr>VDP2_VRAM_A0 = 0x25E00000, VDP2_VRAM_A1 = 0x25E20000,
      VDP2_VRAM_B0 = 0x25E40000, VDP2_VRAM_B1 = 0x25E60000,
      CHAR_SIZE_1x1 = 0, PNB_2WORD = 0, PL_SIZE_2x1 = 1, PL_SIZE_2x2 = 3,
      ScreenON = (\<lambda>scr. case scr of scnNBG0 \<Rightarrow> 1 | scnNBG1 \<Rightarrow> 2 | scnNBG2 \<Rightarrow> 4
                            | scnNBG3 \<Rightarrow> 8 | scnRBG0 \<Rightarrow> 16),
      SPRON = 64, DefaultPaletteId = 0,
      DefaultInfo = \<lparr>ColorMode = Paletted16, CharSize = 0, MapMode = 0, PlaneSize = 0,
                     MapHeight = 0, MapWidth = 0, CellByteSize = 0\<rparr>\<rparr>"

text \<open>The state right after a reset on the Saturn, from program start.\<close>

definition fresh :: VDP2 where
  "fresh = ClearVRAM saturn (VDP2_init saturn 0)"

text \<open>A tilemap description for the scenarios: 64 by 64 tiles, 8-bit indexed colour,
  1x1 cells, one-word map entries, 1x1 planes, 0x8000 bytes of cell data.\<close>

definition info64 :: TilemapInfo where
  "info64 = \<lparr>ColorMode = Paletted256, CharSize = 0, MapMode = 0x8000, PlaneSize = 0,
              MapHeight = 64, MapWidth = 64, CellByteSize = 0x8000\<rparr>"

text \<open>A tilemap with the description \<open>info64\<close> and zeroed buffers, and the state in
  which \<open>NBG0\<close> holds the description of a map with one-word entries of mode 1
  (\<open>MapMode = 0xC000\<close>).\<close>

definition tilemap64 :: ITilemap where
  "tilemap64 = \<lparr>GetInfo = info64, GetCellData = (\<lambda>i. 0), GetMapData = (\<lambda>i. 0)\<rparr>"

definition mode1 :: VDP2 where
  "mode1 = screen_upd scnNBG0 (\<lambda>sc. sc\<lparr>Info := info64\<lparr>MapMode := 0xC000\<rparr>\<rparr>) fresh"

text \<open>The end-to-end scenario: a reset, then two tilemap loads.\<close>

definition LoadTwo ::
  "SDK \<Rightarrow> ScreenId \<Rightarrow> ITilemap \<Rightarrow> int \<Rightarrow> ScreenId \<Rightarrow> ITilemap \<Rightarrow> int \<Rightarrow> VDP2 \<Rightarrow> VDP2" where
  "LoadTwo K scr1 t1 fb1 scr2 t2 fb2 s =
     LoadTilemap K scr2 t2 fb2 (LoadTilemap K scr1 t1 fb1 (ClearVRAM K s))"

section \<open>Sequences of calls and the placement policy in words\<close>

text \<open>A request is the size, the boundary and the cycle cost of one \<open>Allocate\<close> call.
  \<open>AllocateAll\<close> makes the calls of a list in one bank, in order.\<close>

type_synonym request = "32 word \<times> 32 word \<times> 8 word"

fun AllocateAll :: "VramBank \<Rightarrow> request list \<Rightarrow> VDP2 \<Rightarrow> ptr list \<times> VDP2" where
  "AllocateAll bank [] s = ([], s)"
| "AllocateAll bank ((sz, boundary, cycles) # rs) s =
     (case Allocate sz boundary bank cycles s of (a, s1) \<Rightarrow>
        case AllocateAll bank rs s1 of (as, s2) \<Rightarrow> (a # as, s2))"

text \<open>The bytes a list of requests takes from a bank whose bump offset is \<open>cur\<close>:
  sizes and alignment padding.\<close>

fun bytes_needed :: "ptr \<Rightarrow> request list \<Rightarrow> nat" where
  "bytes_needed cur [] = 0"
| "bytes_needed cur ((sz, boundary, cycles) # rs) =
     unat (addrOffset cur boundary) + unat sz
       + bytes_needed (cur + (sz + addrOffset cur boundary)) rs"

definition cycles_needed :: "request list \<Rightarrow> int" where
  "cycles_needed rs = (\<Sum>(sz, boundary, cycles) \<leftarrow> rs. uint cycles)"

text \<open>The byte range of each allocation: its first address and the address after its
  last byte, as numbers.\<close>

definition ranges :: "ptr list \<Rightarrow> request list \<Rightarrow> (nat \<times> nat) list" where
  "ranges as rs = map (\<lambda>(a, (sz, boundary, cycles)). (unat a, unat a + unat sz)) (zip as rs)"

text \<open>The placement policy as the specification words it: try the banks of a list in
  order, each with the same request, until one allocation succeeds.\<close>

fun first_fit :: "32 word \<Rightarrow> 32 word \<Rightarrow> 8 word \<Rightarrow> VramBank list \<Rightarrow> VDP2 \<Rightarrow> ptr \<times> VDP2" where
  "first_fit sz boundary cycles [] s = (nullptr, s)"
| "first_fit sz boundary cycles (b # bs) s =
     (case Allocate sz boundary b cycles s of (a, s1) \<Rightarrow>
        if a \<noteq> nullptr then (a, s1) else first_fit sz boundary cycles bs s1)"

text \<open>The calls of the assert screen so far.\<close>

fun is_assert :: "Call \<Rightarrow> bool" where
  "is_assert (Assert message) = True"
| "is_assert _ = False"

definition asserted :: "VDP2 \<Rightarrow> Call list" where
  "asserted s = filter is_assert (calls s)"

text \<open>The plane-address register calls made so far.\<close>

fun is_plane_call :: "Call \<Rightarrow> bool" where
  "is_plane_call (slMapNbg scr a b c d) = True"
| "is_plane_call (sl1MapRA a) = True"
| "is_plane_call _ = False"

definition plane_calls :: "VDP2 \<Rightarrow> Call list" where
  "plane_calls s = filter is_plane_call (calls s)"


section \<open>Facts about \<open>ClearVRAM\<close> and \<open>Allocate\<close>\<close>

lemma ClearScreen_screens:
  "screens (ClearScreen K scr s) =
     (screens s)(scr := (screens s scr)\<lparr>MapAddress := unallocated K, CellAddress := unallocated K,
                                       TilePalette := None\<rparr>)"
  by (cases "TilePalette (screens s scr)") (simp_all add: ClearScreen_def Let_def fun_eq_iff)

lemma ClearScreen_frame [simp]:
  "currentBot (ClearScreen K scr s) = currentBot s"
  "currentTop (ClearScreen K scr s) = currentTop s"
  "bankCycles (ClearScreen K scr s) = bankCycles s"
  "NBG0_LineAddress (ClearScreen K scr s) = NBG0_LineAddress s"
  "NBG1_LineAddress (ClearScreen K scr s) = NBG1_LineAddress s"
  "RBG0_KtableAddress (ClearScreen K scr s) = RBG0_KtableAddress s"
  "ColorCalcScrolls (ClearScreen K scr s) = ColorCalcScrolls s"
  "VDP2_RAMCTL (ClearScreen K scr s) = VDP2_RAMCTL s"
  by (simp_all add: ClearScreen_def Let_def split: option.split)

lemma ClearVRAM_currentBot [simp]: "currentBot (ClearVRAM K s) = bankBot K"
proof
  fix b show "currentBot (ClearVRAM K s) b = bankBot K b"
    by (cases b) (simp_all add: ClearVRAM_def ClearBank_def Let_def)
qed

lemma ClearVRAM_currentTop [simp]: "currentTop (ClearVRAM K s) = bankTop K"
proof
  fix b show "currentTop (ClearVRAM K s) b = bankTop K b"
    by (cases b) (simp_all add: ClearVRAM_def ClearBank_def Let_def)
qed

lemma ClearVRAM_bankCycles [simp]:
  "bankCycles (ClearVRAM K s) = (\<lambda>b. if b = B1 then 1 else - 1)"
proof
  fix b show "bankCycles (ClearVRAM K s) b = (if b = B1 then 1 else - 1)"
    by (cases b) (simp_all add: ClearVRAM_def ClearBank_def Let_def)
qed

lemma ClearVRAM_screens:
  "screens (ClearVRAM K s) scr =
     (screens s scr)\<lparr>MapAddress := unallocated K, CellAddress := unallocated K, TilePalette := None\<rparr>"
  by (cases scr) (simp_all add: ClearVRAM_def ClearBank_def Let_def ClearScreen_screens)

lemma ClearVRAM_aux [simp]:
  "NBG0_LineAddress (ClearVRAM K s) = unallocated K"
  "NBG1_LineAddress (ClearVRAM K s) = unallocated K"
  "RBG0_KtableAddress (ClearVRAM K s) = unallocated K"
  by (simp_all add: ClearVRAM_def ClearBank_def Let_def)

lemma fresh_simps:
  "currentBot fresh = bankBot saturn"
  "currentTop fresh = bankTop saturn"
  "bankCycles fresh = (\<lambda>b. if b = B1 then 1 else - 1)"
  by (simp_all add: fresh_def)

lemma saturn_simps:
  "VDP2_VRAM_A0 saturn = 0x25E00000" "VDP2_VRAM_A1 saturn = 0x25E20000"
  "VDP2_VRAM_B0 saturn = 0x25E40000" "VDP2_VRAM_B1 saturn = 0x25E60000"
  "CHAR_SIZE_1x1 saturn = 0" "PNB_2WORD saturn = 0" "PL_SIZE_2x1 saturn = 1" "PL_SIZE_2x2 saturn = 3"
  by (simp_all add: saturn_def)

lemma Allocate_result:
  "Allocate sz boundary bank cycles s =
     (if sz + addrOffset (currentBot s bank) boundary \<le> GetAvailable bank s \<and>
         sint (bankCycles s bank) + uint cycles < 8
      then (currentBot s bank + addrOffset (currentBot s bank) boundary,
           s\<lparr>currentBot := (currentBot s)(bank := currentBot s bank + (sz + addrOffset (currentBot s bank) boundary)),
             bankCycles := (bankCycles s)(bank := bankCycles s bank + cycles)\<rparr>)
      else (nullptr, s))"
  by (simp add: Allocate_def Let_def)

lemma unat32_bound: "unat (w :: 32 word) < 2 ^ 32"
  using unsigned_less [of w, where 'a = nat] by simp

text \<open>Without wrap-around, the comparison of \<open>Allocate\<close> is the comparison of the numbers.\<close>

lemma fits_nat:
  fixes cur top sz off :: "32 word"
  assumes "cur \<le> top" and "unat cur + unat off + unat sz < 2 ^ 32"
  shows "sz + off \<le> top - cur \<longleftrightarrow> unat cur + unat off + unat sz \<le> unat top"
proof -
  have a: "unat (sz + off) = unat sz + unat off"
    using assms(2) by (simp add: unat_add_lem [THEN iffD1])
  have b: "unat (top - cur) = unat top - unat cur"
    using assms(1) by (simp add: unat_sub)
  have c: "unat cur \<le> unat top"
    using assms(1) by (simp add: word_le_nat_alt)
  show ?thesis
    unfolding word_le_nat_alt a b using c by arith
qed

lemma addr_nonnull:
  fixes cur off :: "32 word"
  assumes "cur \<noteq> 0" and "unat cur + unat off < 2 ^ 32"
  shows "cur + off \<noteq> 0"
proof -
  have "unat (cur + off) = unat cur + unat off"
    using assms(2) by (simp add: unat_add_lem [THEN iffD1])
  moreover have "0 < unat cur" using assms(1) by (simp add: unat_gt_0)
  ultimately show ?thesis by (metis add_is_0 less_numeral_extra(3) unat_0)
qed

lemma bump_nat:
  fixes cur top sz off :: "32 word"
  assumes "unat cur + unat off + unat sz \<le> unat top"
  shows "unat (cur + (sz + off)) = unat cur + unat off + unat sz"
    and "unat (cur + off) = unat cur + unat off"
    and "unat (sz + off) = unat sz + unat off"
proof -
  have lt: "unat cur + unat off + unat sz < 2 ^ 32"
    using assms unat32_bound [of top] by arith
  then show c: "unat (sz + off) = unat sz + unat off"
    by (simp add: unat_add_lem [THEN iffD1])
  from lt show "unat (cur + off) = unat cur + unat off"
    by (simp add: unat_add_lem [THEN iffD1])
  from lt c show "unat (cur + (sz + off)) = unat cur + unat off + unat sz"
    by (simp add: unat_add_lem [THEN iffD1])
qed

text \<open>The \<open>int8_t\<close> counter does not wrap on a successful allocation.\<close>

lemma sint_counter_add:
  fixes c cy :: "8 word"
  assumes "sint c + uint cy < 8"
  shows "sint (c + cy) = sint c + uint cy"
proof -
  have eq: "c + cy = word_of_int (sint c + uint cy)" by simp
  have lo: "- (2 ^ 7) \<le> sint c + uint cy"
  proof -
    have "- (2 ^ 7) \<le> sint c" using sint_ge [of c] by simp
    moreover have "0 \<le> uint cy" by simp
    ultimately show ?thesis by linarith
  qed
  have hi: "sint c + uint cy < 2 ^ 7" using assms by simp
  have "sint (word_of_int (sint c + uint cy) :: 8 word)
          = signed_take_bit (LENGTH(8) - 1) (sint c + uint cy)"
    by (rule sint_sbintrunc')
  also have "\<dots> = signed_take_bit 7 (sint c + uint cy)" by simp
  also have "\<dots> = sint c + uint cy"
    using lo hi by (rule signed_take_bit_int_eq_self)
  finally show ?thesis by (simp only: eq)
qed

lemma Allocate_success:
  assumes "unat (currentBot s bank) + unat (addrOffset (currentBot s bank) boundary) + unat sz
             \<le> unat (currentTop s bank)"
    and "sint (bankCycles s bank) + uint cycles < 8"
  shows "Allocate sz boundary bank cycles s =
     (currentBot s bank + addrOffset (currentBot s bank) boundary,
      s\<lparr>currentBot := (currentBot s)(bank := currentBot s bank + (sz + addrOffset (currentBot s bank) boundary)),
        bankCycles := (bankCycles s)(bank := bankCycles s bank + cycles)\<rparr>)"
proof -
  let ?cur = "currentBot s bank" and ?off = "addrOffset (currentBot s bank) boundary"
  have le: "?cur \<le> currentTop s bank"
    using assms(1) by (simp add: word_le_nat_alt)
  have lt: "unat ?cur + unat ?off + unat sz < 2 ^ 32"
    using assms(1) unat32_bound [of "currentTop s bank"] by arith
  have "sz + ?off \<le> GetAvailable bank s"
    unfolding GetAvailable_def using fits_nat [OF le lt] assms(1) by simp
  then show ?thesis using assms(2) by (simp add: Allocate_result)
qed

section \<open>Claims about the bank allocator\<close>

text \<open>
  Claim C1, as the code has it. Take a bank whose bump offset is a non-null address not
  above the bank's ceiling, and a request whose offset plus padding plus size stays
  below \<open>2^32\<close>. Then \<open>Allocate\<close> returns \<open>nullptr\<close> exactly when offset plus padding plus
  size exceeds the ceiling, or when the stored cycle counter plus the requested cycles
  reaches 8 or more (the test is \<^verbatim>\<open>bankCycles + cycles < 8\<close>, on a counter that an empty
  bank holds at -1); and whenever it returns \<open>nullptr\<close> the whole state, bump offset and
  cycle counter included, is unchanged. The function is total: it never throws.
\<close>

theorem Allocate_fails_iff:
  assumes "currentBot s bank \<le> currentTop s bank"
    and "currentBot s bank \<noteq> 0"
    and "unat (currentBot s bank) + unat (addrOffset (currentBot s bank) boundary) + unat sz < 2 ^ 32"
  shows "(fst (Allocate sz boundary bank cycles s) = nullptr \<longleftrightarrow>
            unat (currentTop s bank)
              < unat (currentBot s bank) + unat (addrOffset (currentBot s bank) boundary) + unat sz
            \<or> 8 \<le> sint (bankCycles s bank) + uint cycles)
       \<and> (fst (Allocate sz boundary bank cycles s) = nullptr \<longrightarrow>
            snd (Allocate sz boundary bank cycles s) = s)"
proof -
  let ?off = "addrOffset (currentBot s bank) boundary"
  have fit: "sz + ?off \<le> GetAvailable bank s \<longleftrightarrow>
      unat (currentBot s bank) + unat ?off + unat sz \<le> unat (currentTop s bank)"
    unfolding GetAvailable_def using assms(1,3) by (rule fits_nat)
  have nz: "currentBot s bank + ?off \<noteq> nullptr"
    unfolding nullptr_def using assms(2,3) by (intro addr_nonnull) auto
  show ?thesis
    using fit nz by (auto simp: Allocate_result)
qed

text \<open>The hypotheses hold in bank B1 right after a reset; a request of 7 cycles there
  fails on the cycle test and leaves the state as it was.\<close>

theorem Allocate_fails_iff_witness:
  "currentBot fresh B1 \<le> currentTop fresh B1
   \<and> currentBot fresh B1 \<noteq> 0
   \<and> unat (currentBot fresh B1) + unat (addrOffset (currentBot fresh B1) 32) + unat (0x100 :: 32 word) < 2 ^ 32
   \<and> fst (Allocate 0x100 32 B1 7 fresh) = nullptr
   \<and> snd (Allocate 0x100 32 B1 7 fresh) = fresh"
proof -
  have h1: "currentBot fresh B1 \<le> currentTop fresh B1"
    by (simp add: fresh_simps saturn_simps)
  have h2: "currentBot fresh B1 \<noteq> 0"
    by (simp add: fresh_simps saturn_simps)
  have h3: "unat (currentBot fresh B1) + unat (addrOffset (currentBot fresh B1) 32)
              + unat (0x100 :: 32 word) < 2 ^ 32"
    by (simp add: fresh_simps saturn_simps addrOffset_def)
  have c: "8 \<le> sint (bankCycles fresh B1) + uint (7 :: 8 word)"
    by (simp add: fresh_simps)
  from Allocate_fails_iff [OF h1 h2 h3, of 7] c
  have "fst (Allocate 0x100 32 B1 7 fresh) = nullptr \<and> snd (Allocate 0x100 32 B1 7 fresh) = fresh"
    by blast
  with h1 h2 h3 show ?thesis by blast
qed

text \<open>Claim C1 as stated fails: right after a reset bank B1 holds the counter 1, and a
  request of 7 cycles that fits the bank is refused although 1 + 7 does not exceed 8.\<close>

theorem Allocate_cycles_counterexample:
  "fst (Allocate 0x100 32 B1 7 fresh) = nullptr
   \<and> \<not> unat (currentTop fresh B1)
         < unat (currentBot fresh B1) + unat (addrOffset (currentBot fresh B1) 32) + unat (0x100 :: 32 word)
   \<and> \<not> 8 < sint (bankCycles fresh B1) + uint (7 :: 8 word)"
  by (simp add: Allocate_def Let_def GetAvailable_def fresh_simps saturn_simps addrOffset_def)

text \<open>
  Claim C3, as the code has it. After \<open>ClearVRAM\<close> every bank's available byte count is
  its fixed capacity (the one of program start), the map and cell address of every
  screen, both line-scroll addresses and the coefficient-table address are
  \<^verbatim>\<open>VDP2_VRAM_A0 - 1\<close>, and the stored cycle counter is -1 for banks A0, A1 and B0 and 1
  for bank B1, which carries the debug text.
\<close>

theorem ClearVRAM_resets:
  "(\<forall>b. GetAvailable b (ClearVRAM K s) = bankTop K b - bankBot K b
        \<and> GetAvailable b (ClearVRAM K s) = GetAvailable b (VDP2_init K ramctl))
   \<and> (\<forall>scr. MapAddress (screens (ClearVRAM K s) scr) = unallocated K
           \<and> CellAddress (screens (ClearVRAM K s) scr) = unallocated K)
   \<and> NBG0_LineAddress (ClearVRAM K s) = unallocated K
   \<and> NBG1_LineAddress (ClearVRAM K s) = unallocated K
   \<and> RBG0_KtableAddress (ClearVRAM K s) = unallocated K
   \<and> sint (bankCycles (ClearVRAM K s) A0) = - 1
   \<and> sint (bankCycles (ClearVRAM K s) A1) = - 1
   \<and> sint (bankCycles (ClearVRAM K s) B0) = - 1
   \<and> sint (bankCycles (ClearVRAM K s) B1) = 1"
  by (simp add: GetAvailable_def ClearVRAM_screens VDP2_init_def)

text \<open>Claim C3 as stated fails: after a reset the counter of bank A0 is not 0 but -1.\<close>

theorem ClearVRAM_cycles_counterexample:
  "bankCycles fresh A0 \<noteq> 0 \<and> sint (bankCycles fresh A0) = - 1"
  by (simp add: fresh_def)

lemma cycles_needed_Cons:
  "cycles_needed ((sz, bd, cy) # rs) = uint cy + cycles_needed rs"
  by (simp add: cycles_needed_def)

lemma cycles_needed_nonneg: "0 \<le> cycles_needed rs"
  by (induction rs) (auto simp: cycles_needed_def)

lemma AllocateAll_run:
  assumes "currentBot s bank \<noteq> 0"
    and "unat (currentBot s bank) + bytes_needed (currentBot s bank) rs \<le> unat (currentTop s bank)"
    and "sint (bankCycles s bank) + cycles_needed rs < 8"
  shows "length (fst (AllocateAll bank rs s)) = length rs
     \<and> (\<forall>a \<in> set (fst (AllocateAll bank rs s)). a \<noteq> nullptr)
     \<and> unat (currentBot (snd (AllocateAll bank rs s)) bank)
          = unat (currentBot s bank) + bytes_needed (currentBot s bank) rs
     \<and> currentTop (snd (AllocateAll bank rs s)) = currentTop s
     \<and> sint (bankCycles (snd (AllocateAll bank rs s)) bank) = sint (bankCycles s bank) + cycles_needed rs
     \<and> (\<forall>r \<in> set (ranges (fst (AllocateAll bank rs s)) rs).
           unat (currentBot s bank) \<le> fst r \<and> fst r \<le> snd r
         \<and> snd r \<le> unat (currentBot (snd (AllocateAll bank rs s)) bank))
     \<and> sorted_wrt (\<lambda>r r'. snd r \<le> fst r') (ranges (fst (AllocateAll bank rs s)) rs)"
  using assms
proof (induction rs arbitrary: s)
  case Nil
  then show ?case by (simp add: ranges_def cycles_needed_def)
next
  case (Cons r rs)
  obtain sz bd cy where r: "r = (sz, bd, cy)" by (cases r) auto
  let ?cur = "currentBot s bank" and ?off = "addrOffset (currentBot s bank) bd"
  let ?s1 = "s\<lparr>currentBot := (currentBot s)(bank := ?cur + (sz + ?off)),
                bankCycles := (bankCycles s)(bank := bankCycles s bank + cy)\<rparr>"
  have fit1: "unat ?cur + unat ?off + unat sz \<le> unat (currentTop s bank)"
    using Cons.prems(2) by (simp add: r)
  have cyc1: "sint (bankCycles s bank) + uint cy < 8"
    using Cons.prems(3) cycles_needed_nonneg [of rs] by (simp add: r cycles_needed_Cons)
  have step: "Allocate sz bd bank cy s = (?cur + ?off, ?s1)"
    using fit1 cyc1 by (rule Allocate_success)
  have cur1: "unat (currentBot ?s1 bank) = unat ?cur + unat ?off + unat sz"
    using bump_nat(1) [OF fit1] by simp
  have a1: "unat (?cur + ?off) = unat ?cur + unat ?off"
    using bump_nat(2) [OF fit1] by simp
  have pos: "0 < unat ?cur" using Cons.prems(1) by (simp add: unat_gt_0)
  have p1: "currentBot ?s1 bank \<noteq> 0"
    using cur1 pos by (metis add_is_0 less_numeral_extra(3) unat_0)
  have p2: "unat (currentBot ?s1 bank) + bytes_needed (currentBot ?s1 bank) rs \<le> unat (currentTop ?s1 bank)"
    using Cons.prems(2) cur1 by (simp add: r)
  have c1: "sint (bankCycles ?s1 bank) = sint (bankCycles s bank) + uint cy"
    using sint_counter_add [OF cyc1] by simp
  have p3: "sint (bankCycles ?s1 bank) + cycles_needed rs < 8"
    using Cons.prems(3) c1 by (simp add: r cycles_needed_Cons)
  note IH = Cons.IH [OF p1 p2 p3]
  obtain as s2 where run: "AllocateAll bank rs ?s1 = (as, s2)" by (cases "AllocateAll bank rs ?s1") auto
  have all: "AllocateAll bank (r # rs) s = ((?cur + ?off) # as, s2)"
    by (simp add: r step run)
  have nn: "?cur + ?off \<noteq> nullptr"
    using a1 pos by (metis add_is_0 less_numeral_extra(3) unat_0 nullptr_def)
  have rg: "ranges ((?cur + ?off) # as) (r # rs)
      = (unat (?cur + ?off), unat (?cur + ?off) + unat sz) # ranges as rs"
    by (simp add: ranges_def r)
  from IH have ih1: "length as = length rs" and ih2: "\<forall>a \<in> set as. a \<noteq> nullptr"
    and ih3: "unat (currentBot s2 bank) = unat (currentBot ?s1 bank) + bytes_needed (currentBot ?s1 bank) rs"
    and ih4: "currentTop s2 = currentTop ?s1"
    and ih5: "sint (bankCycles s2 bank) = sint (bankCycles ?s1 bank) + cycles_needed rs"
    and ih6: "\<forall>r \<in> set (ranges as rs). unat (currentBot ?s1 bank) \<le> fst r \<and> fst r \<le> snd r
                 \<and> snd r \<le> unat (currentBot s2 bank)"
    and ih7: "sorted_wrt (\<lambda>r r'. snd r \<le> fst r') (ranges as rs)"
    unfolding run fst_conv snd_conv by blast+
  have g3: "unat (currentBot s2 bank) = unat ?cur + bytes_needed ?cur (r # rs)"
    using ih3 cur1 by (simp add: r)
  have g5: "sint (bankCycles s2 bank) = sint (bankCycles s bank) + cycles_needed (r # rs)"
    using ih5 c1 by (simp add: r cycles_needed_Cons)
  have g6: "\<forall>q \<in> set (ranges ((?cur + ?off) # as) (r # rs)).
      unat ?cur \<le> fst q \<and> fst q \<le> snd q \<and> snd q \<le> unat (currentBot s2 bank)"
    using ih6 ih3 cur1 a1 by (auto simp: rg)
  have g7: "sorted_wrt (\<lambda>r r'. snd r \<le> fst r') (ranges ((?cur + ?off) # as) (r # rs))"
    using ih7 ih6 cur1 a1 by (auto simp: rg)
  show ?case
    unfolding all fst_conv snd_conv
    using ih1 ih2 nn g3 ih4 g5 g6 g7 by simp
qed

lemma Allocate_nonnull:
  assumes "fst (Allocate sz boundary bank cycles t) \<noteq> nullptr"
  shows "fst (Allocate sz boundary bank cycles t) = currentBot t bank + addrOffset (currentBot t bank) boundary
       \<and> currentBot (snd (Allocate sz boundary bank cycles t)) bank
            = currentBot t bank + (addrOffset (currentBot t bank) boundary + sz)
       \<and> bankCycles (snd (Allocate sz boundary bank cycles t)) bank = bankCycles t bank + cycles"
  using assms by (simp add: Allocate_result add.commute split: if_splits)

text \<open>
  Claim C2, as the code has it. Take a bank whose bump offset is a non-null address and
  a list of requests for that bank such that the bytes they need, alignment padding
  included, fit between the bump offset and the bank's ceiling, and such that the stored
  cycle counter plus their cumulative cycle cost stays below 8 (for an empty bank, whose
  counter is -1, a cumulative cost of at most 8). Then every call returns a non-null
  address, the bump offset ends advanced by exactly the padding and the sizes, the
  counter ends increased by the cumulative cost, and the byte ranges of the allocations
  lie one after the other: each starts at or after the end of every earlier one. Any
  single successful call returns the bump offset plus its padding, advances the bump
  offset by padding plus size and adds its cycle cost to the counter.
\<close>

theorem AllocateAll_within_budget:
  assumes "currentBot s bank \<noteq> 0"
    and "unat (currentBot s bank) + bytes_needed (currentBot s bank) rs \<le> unat (currentTop s bank)"
    and "sint (bankCycles s bank) + cycles_needed rs < 8"
  shows "length (fst (AllocateAll bank rs s)) = length rs
     \<and> (\<forall>a \<in> set (fst (AllocateAll bank rs s)). a \<noteq> nullptr)
     \<and> unat (currentBot (snd (AllocateAll bank rs s)) bank)
          = unat (currentBot s bank) + bytes_needed (currentBot s bank) rs
     \<and> sint (bankCycles (snd (AllocateAll bank rs s)) bank) = sint (bankCycles s bank) + cycles_needed rs
     \<and> sorted_wrt (\<lambda>r r'. snd r \<le> fst r') (ranges (fst (AllocateAll bank rs s)) rs)
     \<and> (\<forall>sz boundary cycles t.
          fst (Allocate sz boundary bank cycles t) \<noteq> nullptr \<longrightarrow>
            fst (Allocate sz boundary bank cycles t)
              = currentBot t bank + addrOffset (currentBot t bank) boundary
          \<and> currentBot (snd (Allocate sz boundary bank cycles t)) bank
              = currentBot t bank + (addrOffset (currentBot t bank) boundary + sz)
          \<and> bankCycles (snd (Allocate sz boundary bank cycles t)) bank = bankCycles t bank + cycles)"
  using AllocateAll_run [OF assms] Allocate_nonnull by blast

text \<open>Two requests in bank A0 right after a reset: 0x100 bytes at a 32-byte boundary for
  2 cycles, then 0x2000 bytes at a 0x800-byte boundary for 1 cycle.\<close>

theorem AllocateAll_within_budget_witness:
  "currentBot fresh A0 \<noteq> 0
   \<and> unat (currentBot fresh A0) + bytes_needed (currentBot fresh A0) [(0x100, 32, 2), (0x2000, 0x800, 1)]
       \<le> unat (currentTop fresh A0)
   \<and> sint (bankCycles fresh A0) + cycles_needed [(0x100, 32, 2), (0x2000, 0x800, 1)] < 8
   \<and> length (fst (AllocateAll A0 [(0x100, 32, 2), (0x2000, 0x800, 1)] fresh)) = 2
   \<and> sint (bankCycles (snd (AllocateAll A0 [(0x100, 32, 2), (0x2000, 0x800, 1)] fresh)) A0) = 2
   \<and> unat (currentBot (snd (AllocateAll A0 [(0x100, 32, 2), (0x2000, 0x800, 1)] fresh)) A0) = 0x25E02800"
proof -
  let ?rs = "[(0x100, 32, 2), (0x2000, 0x800, 1)] :: request list"
  have h1: "currentBot fresh A0 \<noteq> 0"
    by (simp add: fresh_simps saturn_simps)
  have b: "bytes_needed (currentBot fresh A0) ?rs = 0x2800"
    by (simp add: fresh_simps saturn_simps addrOffset_def)
  have h2: "unat (currentBot fresh A0) + bytes_needed (currentBot fresh A0) ?rs \<le> unat (currentTop fresh A0)"
    unfolding b by (simp add: fresh_simps saturn_simps)
  have c: "cycles_needed ?rs = 3" by (simp add: cycles_needed_def)
  have h3: "sint (bankCycles fresh A0) + cycles_needed ?rs < 8"
    unfolding c by (simp add: fresh_simps)
  from AllocateAll_within_budget [OF h1 h2 h3]
  have "length (fst (AllocateAll A0 ?rs fresh)) = length ?rs"
    and "sint (bankCycles (snd (AllocateAll A0 ?rs fresh)) A0) = sint (bankCycles fresh A0) + cycles_needed ?rs"
    and "unat (currentBot (snd (AllocateAll A0 ?rs fresh)) A0)
          = unat (currentBot fresh A0) + bytes_needed (currentBot fresh A0) ?rs"
    by blast+
  then have "length (fst (AllocateAll A0 ?rs fresh)) = 2"
    and "sint (bankCycles (snd (AllocateAll A0 ?rs fresh)) A0) = 2"
    and "unat (currentBot (snd (AllocateAll A0 ?rs fresh)) A0) = 0x25E02800"
    unfolding b c by (simp_all add: fresh_simps saturn_simps)
  with h1 h2 h3 show ?thesis by blast
qed

text \<open>
  Claim C2 as stated fails. In bank A0 right after a reset, two requests whose sizes add
  up to the bank's capacity and that cost no cycles: the second one asks for a 64-byte
  boundary, needs 32 bytes of padding and is refused. In bank B1 right after a reset, one
  fitting request of 7 cycles is refused.
\<close>

theorem AllocateAll_padding_counterexample:
  "unat (0x20 :: 32 word) + unat (0x1FFE0 :: 32 word) \<le> unat (GetAvailable A0 fresh)
   \<and> uint (0 :: 8 word) + uint (0 :: 8 word) \<le> 8
   \<and> fst (AllocateAll A0 [(0x20, 0x20, 0), (0x1FFE0, 0x40, 0)] fresh) = [0x25E00000, nullptr]
   \<and> unat (0x100 :: 32 word) \<le> unat (GetAvailable B1 fresh)
   \<and> uint (7 :: 8 word) \<le> 8
   \<and> fst (AllocateAll B1 [(0x100, 0x20, 7)] fresh) = [nullptr]"
  by (simp add: Allocate_result GetAvailable_def fresh_simps saturn_simps addrOffset_def nullptr_def)

section \<open>Claims about the placement policy\<close>

lemma first_fit4:
  "first_fit sz bd cy [b1, b2, b3, b4] s =
     IfNull (IfNull (IfNull (Allocate sz bd b1 cy s) (Allocate sz bd b2 cy)) (Allocate sz bd b3 cy))
       (Allocate sz bd b4 cy)"
  by (simp add: IfNull_def split: prod.splits)

lemma info64_simps:
  "ColorMode info64 = Paletted256" "CharSize info64 = 0" "MapMode info64 = 0x8000"
  "PlaneSize info64 = 0" "MapHeight info64 = 64" "MapWidth info64 = 64" "CellByteSize info64 = 0x8000"
  by (simp_all add: info64_def)

text \<open>
  Claim C5. For an ordinary layer \<open>AutoAllocateCell\<close> requests the cell bytes at a
  32-byte boundary with 1 cycle for \<open>Paletted16\<close>, 2 for \<open>Paletted256\<close> and 4 for
  \<open>RGB555\<close>; for \<open>RBG0\<close> it requests 8 cycles, whatever the colour mode, and tries the
  banks A0, A1, B0, B1 in this order until one allocation succeeds. In both cases the
  function is the first-fit search over its bank list followed by the assert on failure
  (the ordinary layers' list is B0, A1, A0, B1).
\<close>

theorem AutoAllocateCell_policy:
  "AutoAllocateCell info scnRBG0 s
     = AssertIfNull ''RBG Cell Allocation failed: insufficient VRAM''
         (first_fit (CellByteSize info) 32 8 [A0, A1, B0, B1] s)
   \<and> (screen \<noteq> scnRBG0 \<and> ColorMode info = Paletted16 \<longrightarrow>
        AutoAllocateCell info screen s
          = AssertIfNull ''NBG Cell Allocation failed: insufficient VRAM''
              (first_fit (CellByteSize info) 32 1 [B0, A1, A0, B1] s))
   \<and> (screen \<noteq> scnRBG0 \<and> ColorMode info = Paletted256 \<longrightarrow>
        AutoAllocateCell info screen s
          = AssertIfNull ''NBG Cell Allocation failed: insufficient VRAM''
              (first_fit (CellByteSize info) 32 2 [B0, A1, A0, B1] s))
   \<and> (screen \<noteq> scnRBG0 \<and> ColorMode info = RGB555 \<longrightarrow>
        AutoAllocateCell info screen s
          = AssertIfNull ''NBG Cell Allocation failed: insufficient VRAM''
              (first_fit (CellByteSize info) 32 4 [B0, A1, A0, B1] s))"
  by (simp add: AutoAllocateCell_def first_fit4 del: first_fit.simps)

text \<open>Right after a reset the cells of an 8-bit layer land at the start of bank B0 for
  2 cycles, those of \<open>RBG0\<close> at the start of bank A0 for all 8 (the counter goes from -1
  to 7).\<close>

theorem AutoAllocateCell_policy_witness:
  "scnNBG0 \<noteq> scnRBG0 \<and> ColorMode info64 = Paletted256
   \<and> fst (AutoAllocateCell info64 scnNBG0 fresh) = 0x25E40000
   \<and> sint (bankCycles (snd (AutoAllocateCell info64 scnNBG0 fresh)) B0) = 1
   \<and> fst (AutoAllocateCell info64 scnRBG0 fresh) = 0x25E00000
   \<and> sint (bankCycles (snd (AutoAllocateCell info64 scnRBG0 fresh)) A0) = 7"
proof -
  have h: "scnNBG0 \<noteq> scnRBG0 \<and> ColorMode info64 = Paletted256"
    by (simp add: info64_simps)
  have n: "first_fit (CellByteSize info64) 32 2 [B0, A1, A0, B1] fresh
      = (0x25E40000, fresh\<lparr>currentBot := (currentBot fresh)(B0 := 0x25E48000),
                           bankCycles := (bankCycles fresh)(B0 := 1)\<rparr>)"
    by (simp add: Allocate_result GetAvailable_def fresh_simps saturn_simps addrOffset_def
        nullptr_def info64_simps)
  have r: "first_fit (CellByteSize info64) 32 8 [A0, A1, B0, B1] fresh
      = (0x25E00000, fresh\<lparr>currentBot := (currentBot fresh)(A0 := 0x25E08000),
                           bankCycles := (bankCycles fresh)(A0 := 7)\<rparr>)"
    by (simp add: Allocate_result GetAvailable_def fresh_simps saturn_simps addrOffset_def
        nullptr_def info64_simps)
  from AutoAllocateCell_policy [of info64 fresh scnNBG0] h
  have "AutoAllocateCell info64 scnNBG0 fresh
          = AssertIfNull ''NBG Cell Allocation failed: insufficient VRAM''
              (first_fit (CellByteSize info64) 32 2 [B0, A1, A0, B1] fresh)"
    and "AutoAllocateCell info64 scnRBG0 fresh
          = AssertIfNull ''RBG Cell Allocation failed: insufficient VRAM''
              (first_fit (CellByteSize info64) 32 8 [A0, A1, B0, B1] fresh)"
    by blast+
  then have "fst (AutoAllocateCell info64 scnNBG0 fresh) = 0x25E40000"
    and "sint (bankCycles (snd (AutoAllocateCell info64 scnNBG0 fresh)) B0) = 1"
    and "fst (AutoAllocateCell info64 scnRBG0 fresh) = 0x25E00000"
    and "sint (bankCycles (snd (AutoAllocateCell info64 scnRBG0 fresh)) A0) = 7"
    unfolding n r by (simp_all add: AssertIfNull_def nullptr_def)
  with h show ?thesis by blast
qed

lemma unat_ucast_16_32: "unat (ucast (w :: 16 word) :: 32 word) = unat w"
proof -
  have "unat w < 2 ^ 16" using unsigned_less [of w, where 'a = nat] by simp
  then have "unat w < 2 ^ 32" by simp
  then show ?thesis
    by (simp add: unsigned_ucast_eq take_bit_nat_eq_self)
qed

lemma unat_ucast_8_32: "unat (ucast (w :: 8 word) :: 32 word) = unat w"
proof -
  have "unat w < 2 ^ 8" using unsigned_less [of w, where 'a = nat] by simp
  then have "unat w < 2 ^ 32" by simp
  then show ?thesis
    by (simp add: unsigned_ucast_eq take_bit_nat_eq_self)
qed

lemma push_bit_word_mult:
  "push_bit 1 (w :: 32 word) = 2 * w" "push_bit 2 (w :: 32 word) = 4 * w"
  by (simp_all add: push_bit_eq_mult)

lemma MapAllocSz_word:
  "MapAllocSz K info
     = 2 * (ucast (MapWidth info) * ucast (MapHeight info)) * (if MapMode info = PNB_2WORD K then 2 else 1)"
  by (simp add: MapAllocSz_def Let_def push_bit_word_mult mult.commute)

lemma map_cells_nat:
  "unat (ucast (MapWidth info) * ucast (MapHeight info) :: 32 word)
     = unat (MapWidth info) * unat (MapHeight info)"
proof -
  have "unat (MapWidth info) < 2 ^ 16" "unat (MapHeight info) < 2 ^ 16"
    using unsigned_less [of "MapWidth info", where 'a = nat]
          unsigned_less [of "MapHeight info", where 'a = nat] by simp_all
  then have "unat (MapWidth info) * unat (MapHeight info) < 2 ^ 16 * 2 ^ 16"
    by (intro mult_strict_mono) simp_all
  then have "unat (ucast (MapWidth info) :: 32 word) * unat (ucast (MapHeight info) :: 32 word) < 2 ^ 32"
    by (simp add: unat_ucast_16_32)
  then show ?thesis
    by (simp add: unat_mult_lem [THEN iffD1] unat_ucast_16_32)
qed

lemma MapAllocSz_nat:
  "unat (MapAllocSz K info)
     = (unat (MapWidth info) * unat (MapHeight info) * 2
          * (if MapMode info = PNB_2WORD K then 2 else 1)) mod 2 ^ 32"
proof -
  define P :: "32 word" where "P = ucast (MapWidth info) * ucast (MapHeight info)"
  have P: "unat P = unat (MapWidth info) * unat (MapHeight info)"
    unfolding P_def by (rule map_cells_nat)
  have "unat (2 * P * (if MapMode info = PNB_2WORD K then 2 else 1))
      = (unat P * 2 * (if MapMode info = PNB_2WORD K then 2 else 1)) mod 2 ^ 32"
    by (simp add: unat_word_ariths mod_simps mult_ac)
  then show ?thesis unfolding MapAllocSz_word P_def [symmetric] P .
qed

lemma MapAllocPageSz_nat:
  "unat (MapAllocPageSz K info)
     = 0x800 * (if CharSize info = CHAR_SIZE_1x1 K then 4 else 1)
             * (if PlaneSize info = PL_SIZE_2x2 K then 4 else if PlaneSize info = PL_SIZE_2x1 K then 2 else 1)
             * (if MapMode info = PNB_2WORD K then 2 else 1)"
  by (simp add: MapAllocPageSz_def Let_def)

text \<open>
  Claim C6. The size and the boundary that \<open>AutoAllocateMap\<close> requests depend on the
  geometry alone (map width and height, cell size, map-entry mode, plane size), not on
  the colour mode, the cell byte size or the state. The size is width times height
  times 2 bytes, doubled for two-word entries, as a \<open>uint32_t\<close> (so modulo \<open>2^32\<close>). The
  boundary is 0x800 bytes, times 4 for the 1x1 cell size, times 2 for the 2x1 and times 4
  for the 2x2 plane size, times 2 for two-word entries. These are the size and boundary
  of every \<open>Allocate\<close> call the function makes.
\<close>

theorem MapAlloc_geometry:
  "MapAllocSz K info
     = 2 * (ucast (MapWidth info) * ucast (MapHeight info)) * (if MapMode info = PNB_2WORD K then 2 else 1)
   \<and> unat (MapAllocSz K info)
     = (unat (MapWidth info) * unat (MapHeight info) * 2 * (if MapMode info = PNB_2WORD K then 2 else 1)) mod 2 ^ 32
   \<and> unat (MapAllocPageSz K info)
     = 0x800 * (if CharSize info = CHAR_SIZE_1x1 K then 4 else 1)
             * (if PlaneSize info = PL_SIZE_2x2 K then 4 else if PlaneSize info = PL_SIZE_2x1 K then 2 else 1)
             * (if MapMode info = PNB_2WORD K then 2 else 1)
   \<and> (MapWidth info = MapWidth info' \<and> MapHeight info = MapHeight info' \<and> CharSize info = CharSize info'
        \<and> MapMode info = MapMode info' \<and> PlaneSize info = PlaneSize info' \<longrightarrow>
          MapAllocSz K info = MapAllocSz K info' \<and> MapAllocPageSz K info = MapAllocPageSz K info')
   \<and> AutoAllocateMap K info scnRBG0 s
       = AssertIfNull ''RBG Map Allocation failed: insufficient VRAM''
           (Allocate (MapAllocSz K info) (MapAllocPageSz K info) A0 8 s)
   \<and> (screen \<noteq> scnRBG0 \<longrightarrow>
        AutoAllocateMap K info screen s
          = AssertIfNull ''NBG Map Allocation failed: insufficient VRAM''
              (IfNull (if bankCycles s A0 \<noteq> 7
                       then Allocate (MapAllocSz K info) (MapAllocPageSz K info) A0 1 s else (nullptr, s))
                 (Allocate (MapAllocSz K info) (MapAllocPageSz K info) B1 1)))"
  using MapAllocSz_word [of K info] MapAllocSz_nat [of K info] MapAllocPageSz_nat [of K info]
  by (simp add: AutoAllocateMap_def Let_def MapAllocSz_def MapAllocPageSz_def)

text \<open>Two descriptions with the same geometry and different colour mode and cell size
  get the same request: 0x2000 bytes at a 0x2000-byte boundary for 64 by 64 one-word
  entries of 1x1 cells in 1x1 planes.\<close>

theorem MapAlloc_geometry_witness:
  "MapWidth info64 = MapWidth (info64\<lparr>ColorMode := RGB555, CellByteSize := 0x100\<rparr>)
   \<and> MapHeight info64 = MapHeight (info64\<lparr>ColorMode := RGB555, CellByteSize := 0x100\<rparr>)
   \<and> CharSize info64 = CharSize (info64\<lparr>ColorMode := RGB555, CellByteSize := 0x100\<rparr>)
   \<and> MapMode info64 = MapMode (info64\<lparr>ColorMode := RGB555, CellByteSize := 0x100\<rparr>)
   \<and> PlaneSize info64 = PlaneSize (info64\<lparr>ColorMode := RGB555, CellByteSize := 0x100\<rparr>)
   \<and> scnNBG0 \<noteq> scnRBG0
   \<and> MapAllocSz saturn info64 = MapAllocSz saturn (info64\<lparr>ColorMode := RGB555, CellByteSize := 0x100\<rparr>)
   \<and> MapAllocPageSz saturn info64
       = MapAllocPageSz saturn (info64\<lparr>ColorMode := RGB555, CellByteSize := 0x100\<rparr>)
   \<and> unat (MapAllocSz saturn info64) = 0x2000
   \<and> unat (MapAllocPageSz saturn info64) = 0x2000"
proof -
  let ?i = "info64\<lparr>ColorMode := RGB555, CellByteSize := 0x100\<rparr>"
  have h: "MapWidth info64 = MapWidth ?i \<and> MapHeight info64 = MapHeight ?i
      \<and> CharSize info64 = CharSize ?i \<and> MapMode info64 = MapMode ?i \<and> PlaneSize info64 = PlaneSize ?i"
    by simp
  have g: "scnNBG0 \<noteq> scnRBG0" by simp
  note T = MapAlloc_geometry [of saturn info64 ?i fresh scnNBG0]
  from T h have e: "MapAllocSz saturn info64 = MapAllocSz saturn ?i"
      "MapAllocPageSz saturn info64 = MapAllocPageSz saturn ?i"
    by blast+
  from T have "unat (MapAllocSz saturn info64)
     = (unat (MapWidth info64) * unat (MapHeight info64) * 2
          * (if MapMode info64 = PNB_2WORD saturn then 2 else 1)) mod 2 ^ 32"
    and "unat (MapAllocPageSz saturn info64)
     = 0x800 * (if CharSize info64 = CHAR_SIZE_1x1 saturn then 4 else 1)
             * (if PlaneSize info64 = PL_SIZE_2x2 saturn then 4
                else if PlaneSize info64 = PL_SIZE_2x1 saturn then 2 else 1)
             * (if MapMode info64 = PNB_2WORD saturn then 2 else 1)"
    by blast+
  then have v: "unat (MapAllocSz saturn info64) = 0x2000" "unat (MapAllocPageSz saturn info64) = 0x2000"
    by (simp_all add: info64_simps saturn_simps)
  from h g e v show ?thesis by blast
qed

section \<open>Claims about the scroll screens\<close>

lemma unallocated_below: "VDP2_VRAM_A0 K \<noteq> 0 \<Longrightarrow> unallocated K < VDP2_VRAM_A0 K"
  unfolding unallocated_def by (simp add: word_less_nat_alt unat_minus_one unat_gt_0)

lemma fresh_screens:
  "screens fresh scr = ScrollScreen_init saturn"
  by (simp add: fresh_def ClearVRAM_screens VDP2_init_def ScrollScreen_init_def)

lemma GetPlaneAddress_cases:
  "(MapAddress (screens s scr) < VDP2_VRAM_A0 K \<longrightarrow> GetPlaneAddress K scr index s = nullptr)
   \<and> (VDP2_VRAM_A0 K \<noteq> 0 \<and> MapAddress (screens s scr) = unallocated K \<longrightarrow>
        GetPlaneAddress K scr index s = nullptr)
   \<and> (VDP2_VRAM_A0 K \<le> MapAddress (screens s scr) \<longrightarrow>
      GetPlaneAddress K scr index s
        = MapAddress (screens s scr)
          + of_nat (2048 * unat index
              * (if CharSize (Info (screens s scr)) = CHAR_SIZE_1x1 K then 4 else 1)
              * (if MapMode (Info (screens s scr)) = PNB_2WORD K then 2 else 1)
              * (if PlaneSize (Info (screens s scr)) = PL_SIZE_2x2 K then 4
                 else if PlaneSize (Info (screens s scr)) = PL_SIZE_2x1 K then 2 else 1)))"
proof -
  have a: "MapAddress (screens s scr) < VDP2_VRAM_A0 K \<Longrightarrow> GetPlaneAddress K scr index s = nullptr"
    by (simp add: GetPlaneAddress_def)
  have b: "VDP2_VRAM_A0 K \<noteq> 0 \<and> MapAddress (screens s scr) = unallocated K \<Longrightarrow>
      GetPlaneAddress K scr index s = nullptr"
    using unallocated_below [of K] by (simp add: GetPlaneAddress_def)
  have c: "VDP2_VRAM_A0 K \<le> MapAddress (screens s scr) \<Longrightarrow>
      GetPlaneAddress K scr index s
        = MapAddress (screens s scr)
          + of_nat (2048 * unat index
              * (if CharSize (Info (screens s scr)) = CHAR_SIZE_1x1 K then 4 else 1)
              * (if MapMode (Info (screens s scr)) = PNB_2WORD K then 2 else 1)
              * (if PlaneSize (Info (screens s scr)) = PL_SIZE_2x2 K then 4
                 else if PlaneSize (Info (screens s scr)) = PL_SIZE_2x1 K then 2 else 1))"
  proof -
    assume "VDP2_VRAM_A0 K \<le> MapAddress (screens s scr)"
    then have nl: "\<not> MapAddress (screens s scr) < VDP2_VRAM_A0 K" by simp
    show ?thesis
      by (simp add: GetPlaneAddress_def Let_def push_bit_word_mult nl)
  qed
  from a b c show ?thesis by blast
qed

lemma GetPageAddress_None: "GetPageAddress K scr index s = None"
  by (simp add: GetPageAddress_def)

text \<open>
  Claim C10. For every scroll screen, \<open>GetPageAddress\<close> and \<open>GetPlaneAddress\<close> return
  \<open>nullptr\<close> whenever the screen's map address is the unallocated value
  \<^verbatim>\<open>VDP2_VRAM_A0 - 1\<close>, and with a valid map address the map address plus a page or
  plane offset. \<open>GetPlaneAddress\<close> does so: on \<open>NBG0\<close> right after a reset plane 1 is
  \<open>nullptr\<close>, and once \<open>SetMapAddress\<close> has put the map at the start of bank A0, plane 1
  is 0x4000 bytes further (1x1 cells, two-word entries, 1x1 planes). \<open>GetPageAddress\<close>
  does not: its return statement adds two \<open>void*\<close> values, so in both states, as in
  every other, it has no result at all.
\<close>

theorem GetPageAddress_no_instance:
  "GetPageAddress saturn scnNBG0 1 (snd (SetMapAddress scnNBG0 0x25E00000 0x4000 fresh)) = None
   \<and> GetPlaneAddress saturn scnNBG0 1 (snd (SetMapAddress scnNBG0 0x25E00000 0x4000 fresh)) = 0x25E04000
   \<and> GetPageAddress saturn scnNBG0 1 fresh = None
   \<and> GetPlaneAddress saturn scnNBG0 1 fresh = nullptr"
proof -
  let ?m = "snd (SetMapAddress scnNBG0 0x25E00000 0x4000 fresh)"
  have m: "screens ?m scnNBG0 = (ScrollScreen_init saturn)\<lparr>MapAddress := 0x25E00000, MapAllocSize := 0x4000\<rparr>"
    by (simp add: SetMapAddress_def screen_upd_def fresh_screens)
  have a: "GetPageAddress saturn scnNBG0 1 ?m = None" "GetPageAddress saturn scnNBG0 1 fresh = None"
    by (simp_all add: GetPageAddress_def)
  have b: "GetPlaneAddress saturn scnNBG0 1 ?m = 0x25E04000"
    unfolding GetPlaneAddress_def m by (simp add: ScrollScreen_init_def saturn_def)
  have c: "GetPlaneAddress saturn scnNBG0 1 fresh = nullptr"
    unfolding GetPlaneAddress_def fresh_screens
    by (simp add: ScrollScreen_init_def unallocated_def saturn_def)
  from a b c show ?thesis by (intro conjI)
qed

lemma ColRate_uint:
  assumes "0 \<le> sint opacity" and "sint opacity < 65536"
  shows "uint (ColRate opacity) = 31 - sint opacity div 2048"
proof -
  let ?x = "signed_drop_bit 11 opacity"
  have sx: "sint ?x = sint opacity div 2048"
    by (simp add: sint_signed_drop_bit_eq drop_bit_eq_div)
  have lo: "0 \<le> sint ?x" and hi: "sint ?x \<le> 31"
    using assms unfolding sx by simp_all
  have ux: "uint ?x = sint ?x"
  proof -
    have "uint ?x = take_bit LENGTH(32) (sint ?x)" by (rule uint_sint)
    also have "\<dots> = sint ?x" using lo hi by (intro take_bit_int_eq_self) simp_all
    finally show ?thesis .
  qed
  have uy: "uint (ucast ?x :: 16 word) = sint ?x"
  proof -
    have "uint (ucast ?x :: 16 word) = take_bit LENGTH(16) (uint ?x)"
      by (rule unsigned_ucast_eq)
    also have "\<dots> = sint ?x" unfolding ux using lo hi by (intro take_bit_int_eq_self) simp_all
    finally show ?thesis .
  qed
  have "uint (ucast ?x :: 16 word) \<le> uint (31 :: 16 word)"
    unfolding uy using hi by simp
  then have "uint (31 - ucast ?x :: 16 word) = uint (31 :: 16 word) - uint (ucast ?x :: 16 word)"
    by (simp only: uint_sub_lem)
  then show ?thesis by (simp add: ColRate_def uy sx)
qed

lemma floor_opacity:
  "\<lfloor>32 * (real_of_int k / 65536)\<rfloor> = k div 2048"
proof -
  have "32 * (real_of_int k / 65536) = real_of_int k / real_of_int 2048" by simp
  then show ?thesis by (simp only: floor_divide_of_int_eq)
qed

lemma ColorCalc_bits:
  fixes m on :: "16 word"
  shows "(m AND NOT on) AND on = 0" "(m OR on) AND on = on"
    "(m AND NOT on) AND NOT on = m AND NOT on" "(m OR on) AND NOT on = m AND NOT on"
  by (rule bit_word_eqI; auto simp: bit_simps)+

text \<open>
  Claim C9. \<open>SetOpacity\<close> does nothing for a negative opacity. For an opacity of 1.0 or
  more it clears the layer's bit in the colour calculation mask, leaves the other bits
  and sets no ratio. For an opacity from 0.0 up to, not including, 1.0 it sets the
  layer's bit, leaves the other bits, and hands \<open>slColRate\<close> the ratio
  \<open>31 - \<lfloor>32 \<times> opacity\<rfloor>\<close>, one of the 32 values 0 to 31; a larger opacity never gets a
  larger ratio. For the opacity 0.5 (raw \<open>0x8000\<close>) the ratio is \<open>\<lfloor>31 \<times> (1 - 0.5)\<rfloor>\<close>.
\<close>

theorem SetOpacity_ratio:
  "(sint opacity < 0 \<longrightarrow> SetOpacity K scr opacity s = s)
   \<and> (sint Fxp_one \<le> sint opacity \<longrightarrow>
        ColorCalcScrolls (SetOpacity K scr opacity s) AND ScreenON K scr = 0
      \<and> ColorCalcScrolls (SetOpacity K scr opacity s) AND NOT (ScreenON K scr)
          = ColorCalcScrolls s AND NOT (ScreenON K scr)
      \<and> calls (SetOpacity K scr opacity s)
          = calls s @ [slColorCalcOn (ColorCalcScrolls (SetOpacity K scr opacity s))])
   \<and> (0 \<le> sint opacity \<and> sint opacity < sint Fxp_one \<longrightarrow>
        ColorCalcScrolls (SetOpacity K scr opacity s) AND ScreenON K scr = ScreenON K scr
      \<and> ColorCalcScrolls (SetOpacity K scr opacity s) AND NOT (ScreenON K scr)
          = ColorCalcScrolls s AND NOT (ScreenON K scr)
      \<and> calls (SetOpacity K scr opacity s)
          = calls s @ [slColRate scr (ColRate opacity),
                       slColorCalcOn (ColorCalcScrolls (SetOpacity K scr opacity s))]
      \<and> uint (ColRate opacity) = 31 - \<lfloor>32 * (real_of_int (sint opacity) / 65536)\<rfloor>
      \<and> 0 \<le> uint (ColRate opacity) \<and> uint (ColRate opacity) \<le> 31)
   \<and> (0 \<le> sint opacity \<and> sint opacity \<le> sint opacity' \<and> sint opacity' < sint Fxp_one \<longrightarrow>
        ColRate opacity' \<le> ColRate opacity)
   \<and> calls (SetOpacity K scr 0x8000 s)
        = calls s @ [slColRate scr (word_of_int \<lfloor>31 * (1 - 1 / 2 :: real)\<rfloor>),
                     slColorCalcOn (ColorCalcScrolls (SetOpacity K scr 0x8000 s))]"
proof -
  have one: "sint Fxp_one = 65536" by (simp add: Fxp_one_def)
  have a: "sint opacity < 0 \<longrightarrow> SetOpacity K scr opacity s = s"
    by (simp add: SetOpacity_def)
  have b: "sint Fxp_one \<le> sint opacity \<longrightarrow>
        ColorCalcScrolls (SetOpacity K scr opacity s) AND ScreenON K scr = 0
      \<and> ColorCalcScrolls (SetOpacity K scr opacity s) AND NOT (ScreenON K scr)
          = ColorCalcScrolls s AND NOT (ScreenON K scr)
      \<and> calls (SetOpacity K scr opacity s)
          = calls s @ [slColorCalcOn (ColorCalcScrolls (SetOpacity K scr opacity s))]"
    unfolding one by (simp add: SetOpacity_def one Let_def ColorCalc_bits)
  have c: "0 \<le> sint opacity \<and> sint opacity < sint Fxp_one \<longrightarrow>
        ColorCalcScrolls (SetOpacity K scr opacity s) AND ScreenON K scr = ScreenON K scr
      \<and> ColorCalcScrolls (SetOpacity K scr opacity s) AND NOT (ScreenON K scr)
          = ColorCalcScrolls s AND NOT (ScreenON K scr)
      \<and> calls (SetOpacity K scr opacity s)
          = calls s @ [slColRate scr (ColRate opacity),
                       slColorCalcOn (ColorCalcScrolls (SetOpacity K scr opacity s))]
      \<and> uint (ColRate opacity) = 31 - \<lfloor>32 * (real_of_int (sint opacity) / 65536)\<rfloor>
      \<and> 0 \<le> uint (ColRate opacity) \<and> uint (ColRate opacity) \<le> 31"
  proof
    assume h: "0 \<le> sint opacity \<and> sint opacity < sint Fxp_one"
    then have r: "uint (ColRate opacity) = 31 - sint opacity div 2048"
      unfolding one by (intro ColRate_uint) simp_all
    have "sint opacity div 2048 \<le> 31" "0 \<le> sint opacity div 2048"
      using h unfolding one by arith+
    with r show "ColorCalcScrolls (SetOpacity K scr opacity s) AND ScreenON K scr = ScreenON K scr
      \<and> ColorCalcScrolls (SetOpacity K scr opacity s) AND NOT (ScreenON K scr)
          = ColorCalcScrolls s AND NOT (ScreenON K scr)
      \<and> calls (SetOpacity K scr opacity s)
          = calls s @ [slColRate scr (ColRate opacity),
                       slColorCalcOn (ColorCalcScrolls (SetOpacity K scr opacity s))]
      \<and> uint (ColRate opacity) = 31 - \<lfloor>32 * (real_of_int (sint opacity) / 65536)\<rfloor>
      \<and> 0 \<le> uint (ColRate opacity) \<and> uint (ColRate opacity) \<le> 31"
      using h unfolding one floor_opacity
      by (simp add: SetOpacity_def one Let_def ColorCalc_bits)
  qed
  have d: "0 \<le> sint opacity \<and> sint opacity \<le> sint opacity' \<and> sint opacity' < sint Fxp_one \<longrightarrow>
        ColRate opacity' \<le> ColRate opacity"
  proof
    assume h: "0 \<le> sint opacity \<and> sint opacity \<le> sint opacity' \<and> sint opacity' < sint Fxp_one"
    then have "uint (ColRate opacity) = 31 - sint opacity div 2048"
      and "uint (ColRate opacity') = 31 - sint opacity' div 2048"
      unfolding one by (auto intro!: ColRate_uint)
    moreover have "sint opacity div 2048 \<le> sint opacity' div 2048"
      using h by (intro zdiv_mono1) simp_all
    ultimately show "ColRate opacity' \<le> ColRate opacity"
      by (simp add: word_le_def)
  qed
  have half: "\<lfloor>31 * (1 - 1 / 2 :: real)\<rfloor> = 15" by simp
  have e: "calls (SetOpacity K scr 0x8000 s)
        = calls s @ [slColRate scr (word_of_int \<lfloor>31 * (1 - 1 / 2 :: real)\<rfloor>),
                     slColorCalcOn (ColorCalcScrolls (SetOpacity K scr 0x8000 s))]"
    unfolding half by (simp add: SetOpacity_def Fxp_one_def Let_def ColRate_def)
  from a b c d e show ?thesis by blast
qed

text \<open>On the reset state: opacity -1 (raw) changes nothing, opacity 1.0 clears the bit of
  \<open>NBG3\<close>, and the opacities 0.25 and 0.5 get the ratios 23 and 15.\<close>

theorem SetOpacity_ratio_witness:
  "sint (- 1 :: 32 word) < 0
   \<and> SetOpacity saturn scnNBG0 (- 1) fresh = fresh
   \<and> sint Fxp_one \<le> sint (0x10000 :: 32 word)
   \<and> ColorCalcScrolls (SetOpacity saturn scnNBG3 0x10000 fresh) AND ScreenON saturn scnNBG3 = 0
   \<and> 0 \<le> sint (0x4000 :: 32 word)
   \<and> sint (0x4000 :: 32 word) \<le> sint (0x8000 :: 32 word)
   \<and> sint (0x8000 :: 32 word) < sint Fxp_one
   \<and> ColRate 0x8000 \<le> ColRate 0x4000
   \<and> uint (ColRate 0x4000) = 23
   \<and> ColorCalcScrolls (SetOpacity saturn scnNBG0 0x4000 fresh) AND ScreenON saturn scnNBG0
       = ScreenON saturn scnNBG0"
proof -
  have h1: "sint (- 1 :: 32 word) < 0" by simp
  have h2: "sint Fxp_one \<le> sint (0x10000 :: 32 word)" by (simp add: Fxp_one_def)
  have h3: "0 \<le> sint (0x4000 :: 32 word) \<and> sint (0x4000 :: 32 word) \<le> sint (0x8000 :: 32 word)
      \<and> sint (0x8000 :: 32 word) < sint Fxp_one"
    by (simp add: Fxp_one_def)
  have h4: "0 \<le> sint (0x4000 :: 32 word) \<and> sint (0x4000 :: 32 word) < sint Fxp_one"
    by (simp add: Fxp_one_def)
  from SetOpacity_ratio [of "- 1" saturn scnNBG0 fresh] h1
  have c1: "SetOpacity saturn scnNBG0 (- 1) fresh = fresh" by blast
  from SetOpacity_ratio [of "0x10000" saturn scnNBG3 fresh] h2
  have c2: "ColorCalcScrolls (SetOpacity saturn scnNBG3 0x10000 fresh) AND ScreenON saturn scnNBG3 = 0"
    by blast
  from SetOpacity_ratio [of "0x4000" saturn scnNBG0 fresh "0x8000"] h3 h4
  have c3: "ColRate 0x8000 \<le> ColRate 0x4000"
    and c4: "uint (ColRate 0x4000) = 31 - \<lfloor>32 * (real_of_int (sint (0x4000 :: 32 word)) / 65536)\<rfloor>"
    and c5: "ColorCalcScrolls (SetOpacity saturn scnNBG0 0x4000 fresh) AND ScreenON saturn scnNBG0
       = ScreenON saturn scnNBG0"
    by blast+
  from c4 have c4': "uint (ColRate 0x4000) = 23" by simp
  from h1 h2 h3 c1 c2 c3 c4' c5 show ?thesis by blast
qed

section \<open>The transfer loops\<close>

declare Cell2VRAM_from.simps [simp del]
declare Map2VRAM_cols.simps [simp del]
declare Map2VRAM_rows.simps [simp del]

lemma Cell2VRAM_from_calls:
  "i \<le> unat sz \<Longrightarrow>
   Cell2VRAM_from cellData cellAdr sz i s
     = s\<lparr>calls := calls s @ map (\<lambda>k. Write8 (cellAdr + of_nat k) (cellData k)) [i..<unat sz]\<rparr>"
proof (induction cellData cellAdr sz i s rule: Cell2VRAM_from.induct)
  case (1 cellData cellAdr sz i s)
  show ?case
  proof (cases "i < unat sz")
    case True
    then have "Suc i \<le> unat sz" by simp
    from "1.IH" [OF True this] True show ?thesis
      by (subst Cell2VRAM_from.simps) (simp add: upt_conv_Cons)
  next
    case False
    with "1.prems" have "i = unat sz" by simp
    then show ?thesis by (subst Cell2VRAM_from.simps) simp
  qed
qed

lemma Cell2VRAM_calls:
  "Cell2VRAM cellData cellAdr sz s
     = s\<lparr>calls := calls s @ map (\<lambda>k. Write8 (cellAdr + of_nat k) (cellData k)) [0..<unat sz]\<rparr>"
  by (simp add: Cell2VRAM_def Cell2VRAM_from_calls)

lemma Map2VRAM_cols_1word:
  "MapMode info \<noteq> 0 \<Longrightarrow> j + n = unat (MapWidth info) \<Longrightarrow>
   Map2VRAM_cols info mapData mapAdr paloff mapoff j (k16, k32, s)
     = (k16 + n, k32,
        s\<lparr>calls := calls s @ map (\<lambda>k. Write16 (mapAdr + 2 * of_nat k) (ucast ((ucast (mapData k) + mapoff) OR push_bit 12 (ucast paloff :: 32 word)))) [k16..<k16 + n]\<rparr>)"
proof (induction n arbitrary: j k16 s)
  case 0
  then show ?case by (subst Map2VRAM_cols.simps) simp
next
  case (Suc n)
  from Suc.prems have lt: "j < unat (MapWidth info)" and nx: "Suc j + n = unat (MapWidth info)"
    by simp_all
  have body: "Map2VRAM_body info mapData mapAdr paloff mapoff (k16, k32, s)
      = (Suc k16, k32, s\<lparr>calls := calls s @ [(\<lambda>k. Write16 (mapAdr + 2 * of_nat k) (ucast ((ucast (mapData k) + mapoff) OR push_bit 12 (ucast paloff :: 32 word)))) k16]\<rparr>)"
    using Suc.prems(1) by (simp add: Map2VRAM_body_def)
  have step: "Map2VRAM_cols info mapData mapAdr paloff mapoff j (k16, k32, s)
      = Map2VRAM_cols info mapData mapAdr paloff mapoff (Suc j)
          (Map2VRAM_body info mapData mapAdr paloff mapoff (k16, k32, s))"
    using lt by (subst Map2VRAM_cols.simps) simp
  have "k16 < k16 + Suc n" by simp
  from upt_conv_Cons [OF this]
  have up: "[k16..<k16 + Suc n] = k16 # [Suc k16..<Suc k16 + n]"
    by (simp only: add_Suc add_Suc_right)
  show ?case
    unfolding step body Suc.IH [OF Suc.prems(1) nx] up by simp
qed

lemma Map2VRAM_cols_2word:
  "MapMode info = 0 \<Longrightarrow> j + n = unat (MapWidth info) \<Longrightarrow>
   Map2VRAM_cols info mapData mapAdr paloff mapoff j (k16, k32, s)
     = (k16, k32 + n,
        s\<lparr>calls := calls s @ map (\<lambda>k. Write32 (mapAdr + 4 * of_nat k) ((Data32 mapData k + mapoff) OR push_bit 20 (ucast paloff))) [k32..<k32 + n]\<rparr>)"
proof (induction n arbitrary: j k32 s)
  case 0
  then show ?case by (subst Map2VRAM_cols.simps) simp
next
  case (Suc n)
  from Suc.prems have lt: "j < unat (MapWidth info)" and nx: "Suc j + n = unat (MapWidth info)"
    by simp_all
  have body: "Map2VRAM_body info mapData mapAdr paloff mapoff (k16, k32, s)
      = (k16, Suc k32, s\<lparr>calls := calls s @ [(\<lambda>k. Write32 (mapAdr + 4 * of_nat k) ((Data32 mapData k + mapoff) OR push_bit 20 (ucast paloff))) k32]\<rparr>)"
    using Suc.prems(1) by (simp add: Map2VRAM_body_def)
  have step: "Map2VRAM_cols info mapData mapAdr paloff mapoff j (k16, k32, s)
      = Map2VRAM_cols info mapData mapAdr paloff mapoff (Suc j)
          (Map2VRAM_body info mapData mapAdr paloff mapoff (k16, k32, s))"
    using lt by (subst Map2VRAM_cols.simps) simp
  have "k32 < k32 + Suc n" by simp
  from upt_conv_Cons [OF this]
  have up: "[k32..<k32 + Suc n] = k32 # [Suc k32..<Suc k32 + n]"
    by (simp only: add_Suc add_Suc_right)
  show ?case
    unfolding step body Suc.IH [OF Suc.prems(1) nx] up by simp
qed

lemma Map2VRAM_rows_1word:
  "MapMode info \<noteq> 0 \<Longrightarrow> i + n = unat (MapHeight info) \<Longrightarrow>
   Map2VRAM_rows info mapData mapAdr paloff mapoff i (k16, k32, s)
     = (k16 + n * unat (MapWidth info), k32,
        s\<lparr>calls := calls s @ map (\<lambda>k. Write16 (mapAdr + 2 * of_nat k) (ucast ((ucast (mapData k) + mapoff) OR push_bit 12 (ucast paloff :: 32 word)))) [k16..<k16 + n * unat (MapWidth info)]\<rparr>)"
proof (induction n arbitrary: i k16 s)
  case 0
  then show ?case by (subst Map2VRAM_rows.simps) simp
next
  case (Suc n)
  let ?W = "unat (MapWidth info)"
  from Suc.prems have lt: "i < unat (MapHeight info)" and nx: "Suc i + n = unat (MapHeight info)"
    by simp_all
  have row: "Map2VRAM_cols info mapData mapAdr paloff mapoff 0 (k16, k32, s)
      = (k16 + unat (MapWidth info), k32,
         s\<lparr>calls := calls s @ map (\<lambda>k. Write16 (mapAdr + 2 * of_nat k) (ucast ((ucast (mapData k) + mapoff) OR push_bit 12 (ucast paloff :: 32 word)))) [k16..<k16 + ?W]\<rparr>)"
    using Suc.prems(1) by (rule Map2VRAM_cols_1word) simp
  have step: "Map2VRAM_rows info mapData mapAdr paloff mapoff i (k16, k32, s)
      = Map2VRAM_rows info mapData mapAdr paloff mapoff (Suc i)
          (Map2VRAM_cols info mapData mapAdr paloff mapoff 0 (k16, k32, s))"
    using lt by (subst Map2VRAM_rows.simps) simp
  have split: "[k16..<k16 + ?W + n * ?W] = [k16..<k16 + ?W] @ [k16 + ?W..<k16 + ?W + n * ?W]"
    by (rule upt_add_eq_append) simp
  have fin: "k16 + Suc n * ?W = k16 + ?W + n * ?W" by simp
  show ?case
    unfolding step row Suc.IH [OF Suc.prems(1) nx] fin split by simp
qed

lemma Map2VRAM_rows_2word:
  "MapMode info = 0 \<Longrightarrow> i + n = unat (MapHeight info) \<Longrightarrow>
   Map2VRAM_rows info mapData mapAdr paloff mapoff i (k16, k32, s)
     = (k16, k32 + n * unat (MapWidth info),
        s\<lparr>calls := calls s @ map (\<lambda>k. Write32 (mapAdr + 4 * of_nat k) ((Data32 mapData k + mapoff) OR push_bit 20 (ucast paloff))) [k32..<k32 + n * unat (MapWidth info)]\<rparr>)"
proof (induction n arbitrary: i k32 s)
  case 0
  then show ?case by (subst Map2VRAM_rows.simps) simp
next
  case (Suc n)
  let ?W = "unat (MapWidth info)"
  from Suc.prems have lt: "i < unat (MapHeight info)" and nx: "Suc i + n = unat (MapHeight info)"
    by simp_all
  have row: "Map2VRAM_cols info mapData mapAdr paloff mapoff 0 (k16, k32, s)
      = (k16, k32 + unat (MapWidth info),
         s\<lparr>calls := calls s @ map (\<lambda>k. Write32 (mapAdr + 4 * of_nat k) ((Data32 mapData k + mapoff) OR push_bit 20 (ucast paloff))) [k32..<k32 + ?W]\<rparr>)"
    using Suc.prems(1) by (rule Map2VRAM_cols_2word) simp
  have step: "Map2VRAM_rows info mapData mapAdr paloff mapoff i (k16, k32, s)
      = Map2VRAM_rows info mapData mapAdr paloff mapoff (Suc i)
          (Map2VRAM_cols info mapData mapAdr paloff mapoff 0 (k16, k32, s))"
    using lt by (subst Map2VRAM_rows.simps) simp
  have split: "[k32..<k32 + ?W + n * ?W] = [k32..<k32 + ?W] @ [k32 + ?W..<k32 + ?W + n * ?W]"
    by (rule upt_add_eq_append) simp
  have fin: "k32 + Suc n * ?W = k32 + ?W + n * ?W" by simp
  show ?case
    unfolding step row Suc.IH [OF Suc.prems(1) nx] fin split by simp
qed

lemma Map2VRAM_calls:
  "Map2VRAM info mapData mapAdr paloff mapoff s
     = s\<lparr>calls := calls s @
         map (\<lambda>k. if MapMode info \<noteq> 0
                   then Write16 (mapAdr + 2 * of_nat k)
                          (ucast ((ucast (mapData k) + mapoff) OR push_bit 12 (ucast paloff :: 32 word)))
                   else Write32 (mapAdr + 4 * of_nat k)
                          ((Data32 mapData k + mapoff) OR push_bit 20 (ucast paloff)))
           [0..<unat (MapHeight info) * unat (MapWidth info)]\<rparr>"
proof (cases "MapMode info = 0")
  case True
  then show ?thesis
    by (simp add: Map2VRAM_def Map2VRAM_rows_2word [where n = "unat (MapHeight info)"])
next
  case False
  then show ?thesis
    by (simp add: Map2VRAM_def Map2VRAM_rows_1word [where n = "unat (MapHeight info)"])
qed

lemma drop5_nat: "unat (drop_bit 5 (w :: 32 word)) = unat w div 32"
  by (simp add: unat_drop_bit_eq drop_bit_eq_div unat_div)

lemma mask15_nat: "unat ((w :: 32 word) AND 0x7FFF) = unat w mod 0x8000"
proof -
  have "(0x7FFF :: 32 word) = mask 15" by (simp add: mask_eq_exp_minus_1)
  then have "w AND 0x7FFF = take_bit 15 w" by (simp only: take_bit_eq_mask)
  then show ?thesis by (simp add: take_bit_eq_mod unat_mod)
qed

lemma mask17_nat: "unat ((w :: 32 word) AND 0x1FFFF) = unat w mod 0x20000"
proof -
  have "(0x1FFFF :: 32 word) = mask 17" by (simp add: mask_eq_exp_minus_1)
  then have "w AND 0x1FFFF = take_bit 17 w" by (simp only: take_bit_eq_mask)
  then show ?thesis by (simp add: take_bit_eq_mod unat_mod)
qed

lemma mode1_info:
  "MapMode (Info (screens mode1 scnNBG0)) = 0xC000" "CharSize (Info (screens mode1 scnNBG0)) = 0"
  by (simp_all add: mode1_def screen_upd_def info64_def)

text \<open>
  Claim C8, as the code has it. \<open>GetCellOffset\<close> subtracts \<open>VDP2_VRAM_A0\<close>, the base of
  the first bank, from the cell address. In two-word mode (\<open>MapMode = 0\<close>) the offset
  is the difference shifted right by 5. In one-word mode 0 (\<open>MapMode = 0x8000\<close>) with
  1x1 cells it is the difference masked with \<open>0x7FFF\<close> and shifted right by 5; in any
  other one-word mode with 1x1 cells the mask is \<open>0x1FFFF\<close>. \<open>Map2VRAM\<close> writes width
  times height entries: in one-word mode the 16-bit source entry plus the offset, or-ed
  with the palette identifier shifted to bit 12, kept to 16 bits; in two-word mode the
  32-bit source entry plus the offset, or-ed with the palette identifier shifted to bit
  20.
\<close>

theorem CellOffset_Map2VRAM:
  "(MapMode (Info (screens s scr)) = 0 \<longrightarrow>
      GetCellOffset K scr tile cellAddress s = drop_bit 5 (cellAddress - VDP2_VRAM_A0 K)
    \<and> unat (GetCellOffset K scr tile cellAddress s) = unat (cellAddress - VDP2_VRAM_A0 K) div 32)
   \<and> (MapMode (Info (screens s scr)) = 0x8000 \<and> CharSize (Info (screens s scr)) = 0 \<longrightarrow>
      GetCellOffset K scr tile cellAddress s = drop_bit 5 ((cellAddress - VDP2_VRAM_A0 K) AND 0x7FFF)
    \<and> unat (GetCellOffset K scr tile cellAddress s)
        = unat (cellAddress - VDP2_VRAM_A0 K) mod 0x8000 div 32)
   \<and> (MapMode (Info (screens s scr)) \<noteq> 0 \<and> MapMode (Info (screens s scr)) \<noteq> 0x8000
        \<and> CharSize (Info (screens s scr)) = 0 \<longrightarrow>
      GetCellOffset K scr tile cellAddress s = drop_bit 5 ((cellAddress - VDP2_VRAM_A0 K) AND 0x1FFFF)
    \<and> unat (GetCellOffset K scr tile cellAddress s)
        = unat (cellAddress - VDP2_VRAM_A0 K) mod 0x20000 div 32)
   \<and> calls (Map2VRAM info mapData mapAdr paloff mapoff s)
       = calls s @
         map (\<lambda>k. if MapMode info \<noteq> 0
                   then Write16 (mapAdr + 2 * of_nat k)
                          (ucast ((ucast (mapData k) + mapoff) OR push_bit 12 (ucast paloff :: 32 word)))
                   else Write32 (mapAdr + 4 * of_nat k)
                          ((Data32 mapData k + mapoff) OR push_bit 20 (ucast paloff)))
           [0..<unat (MapHeight info) * unat (MapWidth info)]"
proof -
  let ?d = "cellAddress - VDP2_VRAM_A0 K"
  have n2: "unat (drop_bit 5 ?d) = unat ?d div 32"
    by (rule drop5_nat)
  have n15: "unat (drop_bit 5 (?d AND 0x7FFF)) = unat ?d mod 0x8000 div 32"
    by (simp only: drop5_nat mask15_nat)
  have n17: "unat (drop_bit 5 (?d AND 0x1FFFF)) = unat ?d mod 0x20000 div 32"
    by (simp only: drop5_nat mask17_nat)
  have a: "MapMode (Info (screens s scr)) = 0 \<Longrightarrow>
      GetCellOffset K scr tile cellAddress s = drop_bit 5 ?d"
    by (simp add: GetCellOffset_def)
  have b: "MapMode (Info (screens s scr)) = 0x8000 \<and> CharSize (Info (screens s scr)) = 0 \<Longrightarrow>
      GetCellOffset K scr tile cellAddress s = drop_bit 5 (?d AND 0x7FFF)"
    by (simp add: GetCellOffset_def)
  have c: "MapMode (Info (screens s scr)) \<noteq> 0 \<and> MapMode (Info (screens s scr)) \<noteq> 0x8000
        \<and> CharSize (Info (screens s scr)) = 0 \<Longrightarrow>
      GetCellOffset K scr tile cellAddress s = drop_bit 5 (?d AND 0x1FFFF)"
    by (simp add: GetCellOffset_def)
  have d: "calls (Map2VRAM info mapData mapAdr paloff mapoff s)
       = calls s @
         map (\<lambda>k. if MapMode info \<noteq> 0
                   then Write16 (mapAdr + 2 * of_nat k)
                          (ucast ((ucast (mapData k) + mapoff) OR push_bit 12 (ucast paloff :: 32 word)))
                   else Write32 (mapAdr + 4 * of_nat k)
                          ((Data32 mapData k + mapoff) OR push_bit 20 (ucast paloff)))
           [0..<unat (MapHeight info) * unat (MapWidth info)]"
    by (simp add: Map2VRAM_calls)
  have A: "MapMode (Info (screens s scr)) = 0 \<longrightarrow>
      GetCellOffset K scr tile cellAddress s = drop_bit 5 ?d
    \<and> unat (GetCellOffset K scr tile cellAddress s) = unat ?d div 32"
  proof
    assume h: "MapMode (Info (screens s scr)) = 0"
    show "GetCellOffset K scr tile cellAddress s = drop_bit 5 ?d
      \<and> unat (GetCellOffset K scr tile cellAddress s) = unat ?d div 32"
      unfolding a [OF h] using n2 by (intro conjI refl)
  qed
  have B: "MapMode (Info (screens s scr)) = 0x8000 \<and> CharSize (Info (screens s scr)) = 0 \<longrightarrow>
      GetCellOffset K scr tile cellAddress s = drop_bit 5 (?d AND 0x7FFF)
    \<and> unat (GetCellOffset K scr tile cellAddress s) = unat ?d mod 0x8000 div 32"
  proof
    assume h: "MapMode (Info (screens s scr)) = 0x8000 \<and> CharSize (Info (screens s scr)) = 0"
    show "GetCellOffset K scr tile cellAddress s = drop_bit 5 (?d AND 0x7FFF)
      \<and> unat (GetCellOffset K scr tile cellAddress s) = unat ?d mod 0x8000 div 32"
      unfolding b [OF h] using n15 by (intro conjI refl)
  qed
  have C: "MapMode (Info (screens s scr)) \<noteq> 0 \<and> MapMode (Info (screens s scr)) \<noteq> 0x8000
        \<and> CharSize (Info (screens s scr)) = 0 \<longrightarrow>
      GetCellOffset K scr tile cellAddress s = drop_bit 5 (?d AND 0x1FFFF)
    \<and> unat (GetCellOffset K scr tile cellAddress s) = unat ?d mod 0x20000 div 32"
  proof
    assume h: "MapMode (Info (screens s scr)) \<noteq> 0 \<and> MapMode (Info (screens s scr)) \<noteq> 0x8000
        \<and> CharSize (Info (screens s scr)) = 0"
    show "GetCellOffset K scr tile cellAddress s = drop_bit 5 (?d AND 0x1FFFF)
      \<and> unat (GetCellOffset K scr tile cellAddress s) = unat ?d mod 0x20000 div 32"
      unfolding c [OF h] using n17 by (intro conjI refl)
  qed
  from A B C d show ?thesis by (intro conjI)
qed

text \<open>One-word mode 1 with 1x1 cells, and two-word mode, for cell data 0x48020 bytes
  above \<open>VDP2_VRAM_A0\<close>.\<close>

theorem CellOffset_Map2VRAM_witness:
  "MapMode (Info (screens mode1 scnNBG0)) \<noteq> 0
   \<and> MapMode (Info (screens mode1 scnNBG0)) \<noteq> 0x8000
   \<and> CharSize (Info (screens mode1 scnNBG0)) = 0
   \<and> GetCellOffset saturn scnNBG0 info64 0x25E48020 mode1 = 0x401
   \<and> MapMode (Info (screens (snd (SetMapAddress scnNBG0 0x25E00000 0x4000 fresh)) scnNBG0)) = 0
   \<and> GetCellOffset saturn scnNBG0 info64 0x25E48020 (snd (SetMapAddress scnNBG0 0x25E00000 0x4000 fresh))
       = 0x2401"
proof -
  let ?m = "snd (SetMapAddress scnNBG0 0x25E00000 0x4000 fresh)"
  have h1: "MapMode (Info (screens mode1 scnNBG0)) \<noteq> 0
      \<and> MapMode (Info (screens mode1 scnNBG0)) \<noteq> 0x8000
      \<and> CharSize (Info (screens mode1 scnNBG0)) = 0"
    by (simp add: mode1_info)
  have h2: "MapMode (Info (screens ?m scnNBG0)) = 0"
    by (simp add: SetMapAddress_def screen_upd_def fresh_screens ScrollScreen_init_def saturn_def)
  from CellOffset_Map2VRAM [of mode1 scnNBG0 saturn info64 "0x25E48020"] h1
  have "GetCellOffset saturn scnNBG0 info64 0x25E48020 mode1
      = drop_bit 5 ((0x25E48020 - VDP2_VRAM_A0 saturn) AND 0x1FFFF)" by blast
  then have c1: "GetCellOffset saturn scnNBG0 info64 0x25E48020 mode1 = 0x401"
    by (simp add: saturn_simps)
  from CellOffset_Map2VRAM [of ?m scnNBG0 saturn info64 "0x25E48020"] h2
  have "GetCellOffset saturn scnNBG0 info64 0x25E48020 ?m
      = drop_bit 5 (0x25E48020 - VDP2_VRAM_A0 saturn)" by blast
  then have c2: "GetCellOffset saturn scnNBG0 info64 0x25E48020 ?m = 0x2401"
    by (simp add: saturn_simps)
  from h1 h2 c1 c2 show ?thesis by blast
qed

text \<open>Claim C8 as stated fails for one-word mode 1 (\<open>MapMode = 0xC000\<close>) with 1x1
  cells: for cell data 0x8000 bytes into bank B0 the offset
  is 0x400, not the 0 that the mask \<open>0x7FFF\<close> gives.\<close>

theorem CellOffset_mode1_counterexample:
  "MapMode (Info (screens mode1 scnNBG0)) \<noteq> 0
   \<and> CharSize (Info (screens mode1 scnNBG0)) = 0
   \<and> GetCellOffset saturn scnNBG0 (Info (screens mode1 scnNBG0)) 0x25E48000 mode1 = 0x400
   \<and> drop_bit 5 (((0x25E48000 :: 32 word) - VDP2_VRAM_A0 saturn) AND 0x7FFF) = 0"
  by (simp add: GetCellOffset_def mode1_info saturn_simps)

section \<open>Facts about \<open>LoadTilemap\<close>\<close>

lemma Allocate_frame [simp]:
  "calls (snd (Allocate sz boundary bank cycles s)) = calls s"
  "screens (snd (Allocate sz boundary bank cycles s)) = screens s"
  "currentTop (snd (Allocate sz boundary bank cycles s)) = currentTop s"
  by (simp_all add: Allocate_result)

lemma IfNull_snd:
  "snd (IfNull r f) = (if fst r = nullptr then snd (f (snd r)) else snd r)"
  by (simp add: IfNull_def)

lemma AssertIfNull_calls:
  "calls (snd (AssertIfNull message r))
     = (if fst r = nullptr then calls (snd r) @ [Assert message] else calls (snd r))"
  "screens (snd (AssertIfNull message r)) = screens (snd r)"
  "fst (AssertIfNull message r) = fst r"
  by (simp_all add: AssertIfNull_def DebugAssert_def)

lemma AutoAllocateCell_frame:
  "plane_calls (snd (AutoAllocateCell info scr s)) = plane_calls s"
  "screens (snd (AutoAllocateCell info scr s)) = screens s"
  by (simp_all add: AutoAllocateCell_def plane_calls_def AssertIfNull_calls IfNull_snd)

lemma AutoAllocateMap_frame:
  "plane_calls (snd (AutoAllocateMap K info scr s)) = plane_calls s"
  "screens (snd (AutoAllocateMap K info scr s)) = screens s"
  by (simp_all add: AutoAllocateMap_def Let_def plane_calls_def AssertIfNull_calls IfNull_snd)

lemma LoadTilemap_map_frame:
  "plane_calls (snd (LoadTilemap_map K scr myInfo s)) = plane_calls s"
  using AutoAllocateMap_frame(1) [of K myInfo scr s]
  by (simp add: LoadTilemap_map_def Let_def plane_calls_def screen_upd_def DebugAssert_def
      split_beta)

lemma LoadTilemap_cell_frame:
  "plane_calls (snd (LoadTilemap_cell K scr myInfo s)) = plane_calls s"
  using AutoAllocateCell_frame(1) [of myInfo scr s]
  by (simp add: LoadTilemap_cell_def Let_def plane_calls_def screen_upd_def DebugAssert_def
      split_beta)

lemma LoadTilemap_palette_frame:
  "plane_calls (snd (LoadTilemap_palette scr freeBank s)) = plane_calls s"
  by (simp add: LoadTilemap_palette_def Let_def plane_calls_def screen_upd_def DebugAssert_def
      PaletteLoadStep_def split: option.splits)

lemma writes_not_plane:
  "filter is_plane_call (map (\<lambda>k. Write8 (a k) (b k)) xs) = []"
  "filter is_plane_call (map (\<lambda>k. if c then Write16 (d k) (e k) else Write32 (f k) (g k)) xs) = []"
  by (induction xs) simp_all

lemma writes_not_assert:
  "filter is_assert (map (\<lambda>k. Write8 (a k) (b k)) xs) = []"
  "filter is_assert (map (\<lambda>k. if c then Write16 (d k) (e k) else Write32 (f k) (g k)) xs) = []"
  by (induction xs) simp_all

lemma LoadTilemap_transfer_frame [simp]:
  "currentBot (LoadTilemap_transfer K scr tilemap s) = currentBot s"
  "currentTop (LoadTilemap_transfer K scr tilemap s) = currentTop s"
  "bankCycles (LoadTilemap_transfer K scr tilemap s) = bankCycles s"
  "screens (LoadTilemap_transfer K scr tilemap s) = screens s"
  "asserted (LoadTilemap_transfer K scr tilemap s) = asserted s"
  by (simp_all add: LoadTilemap_transfer_def Let_def Init_def Map2VRAM_calls Cell2VRAM_calls
      SetPlanesDefault_def SetMapLayout_def SetPlanes_def asserted_def writes_not_assert
      split: prod.splits)

lemma LoadTilemap_transfer_RBG0:
  "plane_calls (LoadTilemap_transfer K scnRBG0 tilemap s)
     = plane_calls s @ [sl1MapRA (MapAddress (screens s scnRBG0))]"
  by (simp add: LoadTilemap_transfer_def Let_def Init_def Map2VRAM_calls Cell2VRAM_calls
      plane_calls_def writes_not_plane)

lemma LoadTilemap_transfer_NBG:
  "scr \<noteq> scnRBG0 \<Longrightarrow>
   plane_calls (LoadTilemap_transfer K scr tilemap s)
     = plane_calls s @
       [case PlanesDefault K (Info (screens s scr)) of (a, b, c, d) \<Rightarrow>
          slMapNbg scr (GetPlaneAddress K scr a s) (GetPlaneAddress K scr b s)
            (GetPlaneAddress K scr c s) (GetPlaneAddress K scr d s),
        slMapNbg scr (MapAddress (screens s scr)) (MapAddress (screens s scr))
          (MapAddress (screens s scr)) (MapAddress (screens s scr))]"
  by (simp add: LoadTilemap_transfer_def Let_def Init_def Map2VRAM_calls Cell2VRAM_calls
      SetPlanesDefault_def SetMapLayout_def SetPlanes_def plane_calls_def writes_not_plane
      split: prod.splits)

lemma LoadTilemap_RBG0_planes:
  "plane_calls (LoadTilemap K scnRBG0 tilemap freeBank s) = plane_calls s
   \<or> plane_calls (LoadTilemap K scnRBG0 tilemap freeBank s)
       = plane_calls s @ [sl1MapRA (MapAddress (screens (LoadTilemap K scnRBG0 tilemap freeBank s) scnRBG0))]"
proof -
  let ?s0 = "screen_upd scnRBG0 (\<lambda>sc. sc\<lparr>Info := GetInfo tilemap\<rparr>) s"
  have p0: "plane_calls ?s0 = plane_calls s" by (simp add: plane_calls_def screen_upd_def)
  obtain g1 s1 where m: "LoadTilemap_map K scnRBG0 (GetInfo tilemap) ?s0 = (g1, s1)"
    by (cases "LoadTilemap_map K scnRBG0 (GetInfo tilemap) ?s0") auto
  obtain g2 s2 where c: "LoadTilemap_cell K scnRBG0 (GetInfo tilemap) s1 = (g2, s2)"
    by (cases "LoadTilemap_cell K scnRBG0 (GetInfo tilemap) s1") auto
  obtain g3 s3 where p: "LoadTilemap_palette scnRBG0 freeBank s2 = (g3, s3)"
    by (cases "LoadTilemap_palette scnRBG0 freeBank s2") auto
  have p1: "plane_calls s1 = plane_calls s"
    using LoadTilemap_map_frame [of K scnRBG0 "GetInfo tilemap" ?s0] by (simp add: m p0)
  have p2: "plane_calls s2 = plane_calls s"
    using LoadTilemap_cell_frame [of K scnRBG0 "GetInfo tilemap" s1] by (simp add: c p1)
  have p3: "plane_calls s3 = plane_calls s"
    using LoadTilemap_palette_frame [of scnRBG0 freeBank s2] by (simp add: p p2)
  show ?thesis
    by (simp add: LoadTilemap_def Let_def m c p p1 p2 p3 LoadTilemap_transfer_RBG0)
qed


lemma ptr_at_least:
  fixes base cur off :: "32 word"
  assumes "base \<le> cur" and "unat cur + unat off < 2 ^ 32"
  shows "base \<le> cur + off"
proof -
  have "unat (cur + off) = unat cur + unat off"
    using assms(2) by (simp add: unat_add_lem [THEN iffD1])
  then show ?thesis using assms(1) by (simp add: word_le_nat_alt)
qed

lemma LoadTilemap_auto:
  assumes nr: "scr \<noteq> scnRBG0"
    and um: "MapAddress (screens s scr) < VDP2_VRAM_A0 K"
    and uc: "CellAddress (screens s scr) < VDP2_VRAM_A0 K"
    and pal: "ColorMode (GetInfo t) \<noteq> RGB555" "TilePalette (screens s scr) = None" "0 \<le> fb"
    and a1: "VDP2_VRAM_A0 K \<le> currentBot s A0" "currentBot s A0 \<noteq> 0"
    and a2: "unat (currentBot s A0)
               + unat (addrOffset (currentBot s A0) (MapAllocPageSz K (GetInfo t)))
               + unat (MapAllocSz K (GetInfo t)) \<le> unat (currentTop s A0)"
    and a3: "sint (bankCycles s A0) + 1 < 8"
    and b1: "VDP2_VRAM_A0 K \<le> currentBot s B0" "currentBot s B0 \<noteq> 0"
    and b2: "unat (currentBot s B0) + unat (addrOffset (currentBot s B0) 32)
               + unat (CellByteSize (GetInfo t)) \<le> unat (currentTop s B0)"
    and b3: "sint (bankCycles s B0) + uint (reqCycles (ColorMode (GetInfo t))) < 8"
  shows "currentBot (LoadTilemap K scr t fb s)
           = (currentBot s)
               (A0 := currentBot s A0
                        + (MapAllocSz K (GetInfo t) + addrOffset (currentBot s A0) (MapAllocPageSz K (GetInfo t))),
                B0 := currentBot s B0
                        + (CellByteSize (GetInfo t) + addrOffset (currentBot s B0) 32))"
    and "bankCycles (LoadTilemap K scr t fb s)
           = (bankCycles s)(A0 := bankCycles s A0 + 1,
                            B0 := bankCycles s B0 + reqCycles (ColorMode (GetInfo t)))"
    and "currentTop (LoadTilemap K scr t fb s) = currentTop s"
    and "screens (LoadTilemap K scr t fb s)
           = (screens s)
               (scr := (screens s scr)
                  \<lparr>Info := GetInfo t,
                   MapAddress := currentBot s A0 + addrOffset (currentBot s A0) (MapAllocPageSz K (GetInfo t)),
                   CellAddress := currentBot s B0 + addrOffset (currentBot s B0) 32,
                   TilePalette := Some \<lparr>palMode = ColorMode (GetInfo t), palId = fb\<rparr>\<rparr>)"
    and "asserted (LoadTilemap K scr t fb s) = asserted s"
proof -
  let ?info = "GetInfo t"
  let ?sz = "MapAllocSz K ?info" and ?pg = "MapAllocPageSz K ?info"
  let ?offA = "addrOffset (currentBot s A0) ?pg" and ?offB = "addrOffset (currentBot s B0) 32"
  let ?ma = "currentBot s A0 + ?offA" and ?ca = "currentBot s B0 + ?offB"
  define s0 where "s0 = screen_upd scr (\<lambda>sc. sc\<lparr>Info := ?info\<rparr>) s"
  have s0: "currentBot s0 = currentBot s" "currentTop s0 = currentTop s" "bankCycles s0 = bankCycles s"
    "calls s0 = calls s" "screens s0 = (screens s)(scr := (screens s scr)\<lparr>Info := ?info\<rparr>)"
    by (simp_all add: s0_def screen_upd_def)
  \<comment> \<open>the map allocation\<close>
  have ltA: "unat (currentBot s A0) + unat ?offA < 2 ^ 32"
    using a2 unat32_bound [of "currentTop s A0"] by arith
  have ma_ge: "VDP2_VRAM_A0 K \<le> ?ma" using a1(1) ltA by (rule ptr_at_least)
  have ma_nz: "?ma \<noteq> nullptr"
    unfolding nullptr_def using a1(2) ltA by (rule addr_nonnull)
  have n7: "bankCycles s A0 \<noteq> 7"
    using a3 by auto
  define s1 where "s1 = s0\<lparr>currentBot := (currentBot s0)(A0 := currentBot s0 A0 + (?sz + ?offA)),
                            bankCycles := (bankCycles s0)(A0 := bankCycles s0 A0 + 1)\<rparr>"
  have allocA: "Allocate ?sz ?pg A0 1 s0 = (?ma, s1)"
    using Allocate_success [of s0 A0 ?pg ?sz 1] a2 a3 by (simp add: s0 s1_def)
  have autoA: "AutoAllocateMap K ?info scr s0 = (?ma, s1)"
    using nr n7 ma_nz by (simp add: AutoAllocateMap_def Let_def s0 allocA IfNull_def AssertIfNull_def)
  define s2 where "s2 = screen_upd scr (\<lambda>sc. sc\<lparr>MapAddress := ?ma\<rparr>) s1"
  have stepA: "LoadTilemap_map K scr ?info s0 = (True, s2)"
    using um ma_ge by (simp add: LoadTilemap_map_def Let_def s0 autoA s2_def not_less)
  have s2: "currentBot s2 = (currentBot s)(A0 := currentBot s A0 + (?sz + ?offA))"
    "currentTop s2 = currentTop s"
    "bankCycles s2 = (bankCycles s)(A0 := bankCycles s A0 + 1)"
    "calls s2 = calls s"
    "screens s2 = (screens s)(scr := (screens s scr)\<lparr>Info := ?info, MapAddress := ?ma\<rparr>)"
    by (simp_all add: s2_def s1_def screen_upd_def s0)
  \<comment> \<open>the cell allocation\<close>
  have ltB: "unat (currentBot s B0) + unat ?offB < 2 ^ 32"
    using b2 unat32_bound [of "currentTop s B0"] by arith
  have ca_ge: "VDP2_VRAM_A0 K \<le> ?ca" using b1(1) ltB by (rule ptr_at_least)
  have ca_nz: "?ca \<noteq> nullptr"
    unfolding nullptr_def using b1(2) ltB by (rule addr_nonnull)
  define s3 where "s3 = s2\<lparr>currentBot := (currentBot s2)(B0 := currentBot s2 B0 + (CellByteSize ?info + ?offB)),
                            bankCycles := (bankCycles s2)(B0 := bankCycles s2 B0 + reqCycles (ColorMode ?info))\<rparr>"
  have allocB: "Allocate (CellByteSize ?info) 32 B0 (reqCycles (ColorMode ?info)) s2 = (?ca, s3)"
    using Allocate_success [of s2 B0 32 "CellByteSize ?info" "reqCycles (ColorMode ?info)"] b2 b3
    by (simp add: s2 s3_def)
  have autoB: "AutoAllocateCell ?info scr s2 = (?ca, s3)"
    using nr ca_nz by (simp add: AutoAllocateCell_def allocB IfNull_def AssertIfNull_def)
  define s4 where "s4 = screen_upd scr (\<lambda>sc. sc\<lparr>CellAddress := ?ca\<rparr>) s3"
  have stepB: "LoadTilemap_cell K scr ?info s2 = (True, s4)"
    using uc ca_ge by (simp add: LoadTilemap_cell_def Let_def s2 autoB s4_def not_less)
  have s4: "currentBot s4 = (currentBot s)(A0 := currentBot s A0 + (?sz + ?offA),
                                           B0 := currentBot s B0 + (CellByteSize ?info + ?offB))"
    "currentTop s4 = currentTop s"
    "bankCycles s4 = (bankCycles s)(A0 := bankCycles s A0 + 1,
                                    B0 := bankCycles s B0 + reqCycles (ColorMode ?info))"
    "calls s4 = calls s"
    "screens s4 = (screens s)(scr := (screens s scr)\<lparr>Info := ?info, MapAddress := ?ma, CellAddress := ?ca\<rparr>)"
    by (simp_all add: s4_def s3_def screen_upd_def s2)
  \<comment> \<open>the palette\<close>
  define s5 where "s5 = snd (LoadTilemap_palette scr fb s4)"
  have stepP: "LoadTilemap_palette scr fb s4 = (True, s5)"
    using pal by (simp add: s5_def LoadTilemap_palette_def Let_def s4)
  have s5: "currentBot s5 = currentBot s4" "currentTop s5 = currentTop s4" "bankCycles s5 = bankCycles s4"
    "asserted s5 = asserted s"
    "screens s5 = (screens s)(scr := (screens s scr)\<lparr>Info := ?info, MapAddress := ?ma,
         CellAddress := ?ca, TilePalette := Some \<lparr>palMode = ColorMode ?info, palId = fb\<rparr>\<rparr>)"
    using pal
    by (simp_all add: s5_def LoadTilemap_palette_def Let_def s4 PaletteLoadStep_def screen_upd_def
        asserted_def)
  have run: "LoadTilemap K scr t fb s = LoadTilemap_transfer K scr t s5"
    by (simp add: LoadTilemap_def Let_def s0_def [symmetric] stepA stepB stepP)
  show "currentBot (LoadTilemap K scr t fb s)
           = (currentBot s)(A0 := currentBot s A0 + (?sz + ?offA),
                            B0 := currentBot s B0 + (CellByteSize ?info + ?offB))"
    by (simp add: run s5 s4)
  show "bankCycles (LoadTilemap K scr t fb s)
           = (bankCycles s)(A0 := bankCycles s A0 + 1,
                            B0 := bankCycles s B0 + reqCycles (ColorMode ?info))"
    by (simp add: run s5 s4)
  show "currentTop (LoadTilemap K scr t fb s) = currentTop s"
    by (simp add: run s5 s4)
  show "screens (LoadTilemap K scr t fb s)
           = (screens s)(scr := (screens s scr)\<lparr>Info := ?info, MapAddress := ?ma,
                 CellAddress := ?ca, TilePalette := Some \<lparr>palMode = ColorMode ?info, palId = fb\<rparr>\<rparr>)"
    by (simp add: run s5)
  show "asserted (LoadTilemap K scr t fb s) = asserted s"
    by (simp add: run s5)
qed


lemma addrOffset_less:
  assumes "boundary \<noteq> 0"
  shows "unat (addrOffset cur boundary) < unat boundary"
proof (cases "cur AND (boundary - 1) = 0")
  case True
  then show ?thesis using assms by (simp add: addrOffset_def unat_gt_0)
next
  case False
  let ?x = "cur AND (boundary - 1)"
  have "?x \<le> boundary - 1" by (rule word_and_le1)
  then have "unat ?x \<le> unat (boundary - 1)" by (simp add: word_le_nat_alt)
  also have "unat (boundary - 1) = unat boundary - 1" using assms by (rule unat_minus_one)
  finally have le: "unat ?x \<le> unat boundary - 1" .
  have pos: "0 < unat boundary" using assms by (simp add: unat_gt_0)
  have xpos: "0 < unat ?x" using False by (simp add: unat_gt_0)
  have "?x \<le> boundary" using le pos by (simp add: word_le_nat_alt)
  then have "unat (boundary - ?x) = unat boundary - unat ?x" by (rule unat_sub)
  then show ?thesis using False xpos pos by (simp add: addrOffset_def)
qed

lemma MapAllocPageSz_saturn:
  "MapAllocPageSz saturn info \<noteq> 0"
  "unat (MapAllocPageSz saturn info) \<le> 0x10000"
  "addrOffset 0x25E00000 (MapAllocPageSz saturn info) = 0"
  by (simp_all add: MapAllocPageSz_def Let_def addrOffset_def saturn_simps)

lemma MapAllocSz_64:
  assumes "MapWidth info = 64" "MapHeight info = 64"
  shows "unat (MapAllocSz K info) \<le> 0x4000"
  using MapAllocSz_nat [of K info] assms by simp


lemma unat_add32:
  fixes a b :: "32 word"
  shows "unat a + unat b < 2 ^ 32 \<Longrightarrow> unat (a + b) = unat a + unat b"
  by (simp add: unat_add_lem [THEN iffD1])

lemma ClearVRAM_asserted_screens:
  "MapAddress (screens (ClearVRAM K s) scr) = unallocated K"
  "CellAddress (screens (ClearVRAM K s) scr) = unallocated K"
  "TilePalette (screens (ClearVRAM K s) scr) = None"
  by (simp_all add: ClearVRAM_screens)

lemma load_two_layers:
  assumes scr: "scr1 \<noteq> scnRBG0" "scr2 \<noteq> scnRBG0" "scr1 \<noteq> scr2"
    and same: "GetInfo t2 = GetInfo t1"
    and col: "ColorMode (GetInfo t1) = Paletted256"
    and geo: "MapWidth (GetInfo t1) = 64" "MapHeight (GetInfo t1) = 64"
    and cell: "unat (CellByteSize (GetInfo t1)) \<le> 0xFFE0"
    and fb: "0 \<le> fb1" "0 \<le> fb2"
  shows "asserted (LoadTwo saturn scr1 t1 fb1 scr2 t2 fb2 s) = asserted (ClearVRAM saturn s)"
    and "MapAddress (screens (LoadTwo saturn scr1 t1 fb1 scr2 t2 fb2 s) scr1) = 0x25E00000"
    and "CellAddress (screens (LoadTwo saturn scr1 t1 fb1 scr2 t2 fb2 s) scr1) = 0x25E40000"
    and "0x25E00000 + unat (MapAllocSz saturn (GetInfo t1))
           \<le> unat (MapAddress (screens (LoadTwo saturn scr1 t1 fb1 scr2 t2 fb2 s) scr2))"
    and "unat (MapAddress (screens (LoadTwo saturn scr1 t1 fb1 scr2 t2 fb2 s) scr2))
           + unat (MapAllocSz saturn (GetInfo t1))
         = unat (currentBot (LoadTwo saturn scr1 t1 fb1 scr2 t2 fb2 s) A0)"
    and "unat (currentBot (LoadTwo saturn scr1 t1 fb1 scr2 t2 fb2 s) A0) \<le> 0x25E20000"
    and "0x25E40000 + unat (CellByteSize (GetInfo t1))
           \<le> unat (CellAddress (screens (LoadTwo saturn scr1 t1 fb1 scr2 t2 fb2 s) scr2))"
    and "unat (CellAddress (screens (LoadTwo saturn scr1 t1 fb1 scr2 t2 fb2 s) scr2))
           + unat (CellByteSize (GetInfo t1))
         = unat (currentBot (LoadTwo saturn scr1 t1 fb1 scr2 t2 fb2 s) B0)"
    and "unat (currentBot (LoadTwo saturn scr1 t1 fb1 scr2 t2 fb2 s) B0) \<le> 0x25E60000"
    and "bankCycles (LoadTilemap saturn scr1 t1 fb1 (ClearVRAM saturn s)) A0 = 0"
    and "bankCycles (LoadTilemap saturn scr1 t1 fb1 (ClearVRAM saturn s)) B0 = 1"
    and "bankCycles (LoadTwo saturn scr1 t1 fb1 scr2 t2 fb2 s) A0 = 1"
    and "bankCycles (LoadTwo saturn scr1 t1 fb1 scr2 t2 fb2 s) B0 = 3"
    and "bankCycles (LoadTwo saturn scr1 t1 fb1 scr2 t2 fb2 s) A1 = - 1"
    and "bankCycles (LoadTwo saturn scr1 t1 fb1 scr2 t2 fb2 s) B1 = 1"
    and "currentBot (LoadTwo saturn scr1 t1 fb1 scr2 t2 fb2 s) A1 = 0x25E20000"
    and "currentBot (LoadTwo saturn scr1 t1 fb1 scr2 t2 fb2 s) B1 = 0x25E60000"
proof -
  let ?info = "GetInfo t1"
  let ?sz = "MapAllocSz saturn ?info" and ?pg = "MapAllocPageSz saturn ?info"
  let ?c = "CellByteSize ?info"
  define s0 where "s0 = ClearVRAM saturn s"
  define S1 where "S1 = LoadTilemap saturn scr1 t1 fb1 s0"
  define S2 where "S2 = LoadTilemap saturn scr2 t2 fb2 S1"
  have S2: "LoadTwo saturn scr1 t1 fb1 scr2 t2 fb2 s = S2"
    by (simp add: LoadTwo_def S2_def S1_def s0_def)
  have szb: "unat ?sz \<le> 0x4000" using geo by (rule MapAllocSz_64)
  have pgb: "unat ?pg \<le> 0x10000" and pgnz: "?pg \<noteq> 0"
    and offA0: "addrOffset 0x25E00000 ?pg = 0"
    by (rule MapAllocPageSz_saturn)+
  have offB0: "addrOffset 0x25E40000 32 = 0" by (simp add: addrOffset_def)
  have rq: "reqCycles (ColorMode ?info) = 2" by (simp add: col)
  have nrgb: "ColorMode ?info \<noteq> RGB555" by (simp add: col)
  \<comment> \<open>the reset state\<close>
  have z: "currentBot s0 = bankBot saturn" "currentTop s0 = bankTop saturn"
    "bankCycles s0 = (\<lambda>b. if b = B1 then 1 else - 1)"
    "MapAddress (screens s0 scr1) = unallocated saturn" "CellAddress (screens s0 scr1) = unallocated saturn"
    "TilePalette (screens s0 scr1) = None"
    "MapAddress (screens s0 scr2) = unallocated saturn" "CellAddress (screens s0 scr2) = unallocated saturn"
    "TilePalette (screens s0 scr2) = None"
    by (simp_all add: s0_def ClearVRAM_asserted_screens)
  have un: "unallocated saturn < VDP2_VRAM_A0 saturn"
    by (simp add: unallocated_def saturn_simps)
  \<comment> \<open>the first load\<close>
  have L1: "currentBot S1 = (bankBot saturn)(A0 := 0x25E00000 + ?sz, B0 := 0x25E40000 + ?c)"
    "bankCycles S1 = (\<lambda>b. if b = B1 then 1 else - 1)(A0 := 0, B0 := 1)"
    "currentTop S1 = bankTop saturn"
    "screens S1 = (screens s0)
        (scr1 := (screens s0 scr1)\<lparr>Info := ?info, MapAddress := 0x25E00000, CellAddress := 0x25E40000,
            TilePalette := Some \<lparr>palMode = ColorMode ?info, palId = fb1\<rparr>\<rparr>)"
    "asserted S1 = asserted s0"
  proof -
    have a1: "VDP2_VRAM_A0 saturn \<le> currentBot s0 A0" "currentBot s0 A0 \<noteq> 0"
      by (simp_all add: z saturn_simps)
    have a2: "unat (currentBot s0 A0) + unat (addrOffset (currentBot s0 A0) ?pg) + unat ?sz
        \<le> unat (currentTop s0 A0)"
      using szb by (simp add: z saturn_simps offA0)
    have a3: "sint (bankCycles s0 A0) + 1 < 8" by (simp add: z)
    have b1: "VDP2_VRAM_A0 saturn \<le> currentBot s0 B0" "currentBot s0 B0 \<noteq> 0"
      by (simp_all add: z saturn_simps)
    have b2: "unat (currentBot s0 B0) + unat (addrOffset (currentBot s0 B0) 32) + unat ?c
        \<le> unat (currentTop s0 B0)"
      using cell by (simp add: z saturn_simps offB0)
    have b3: "sint (bankCycles s0 B0) + uint (reqCycles (ColorMode ?info)) < 8"
      by (simp add: z rq)
    note R = LoadTilemap_auto [of scr1 s0 saturn t1 fb1, OF scr(1) _ _ nrgb z(6) fb(1) a1 a2 a3 b1 b2 b3,
        folded S1_def]
    have um: "MapAddress (screens s0 scr1) < VDP2_VRAM_A0 saturn" using un by (simp add: z)
    have uc: "CellAddress (screens s0 scr1) < VDP2_VRAM_A0 saturn" using un by (simp add: z)
    show "currentBot S1 = (bankBot saturn)(A0 := 0x25E00000 + ?sz, B0 := 0x25E40000 + ?c)"
      using R(1) [OF um uc] by (simp add: z saturn_simps offA0 offB0)
    show "bankCycles S1 = (\<lambda>b. if b = B1 then 1 else - 1)(A0 := 0, B0 := 1)"
      using R(2) [OF um uc] by (simp add: z rq)
    show "currentTop S1 = bankTop saturn"
      using R(3) [OF um uc] by (simp add: z)
    show "screens S1 = (screens s0)
        (scr1 := (screens s0 scr1)\<lparr>Info := ?info, MapAddress := 0x25E00000, CellAddress := 0x25E40000,
            TilePalette := Some \<lparr>palMode = ColorMode ?info, palId = fb1\<rparr>\<rparr>)"
      using R(4) [OF um uc] by (simp add: z saturn_simps offA0 offB0)
    show "asserted S1 = asserted s0"
      using R(5) [OF um uc] .
  qed
  \<comment> \<open>the second load\<close>
  let ?curA = "0x25E00000 + ?sz" and ?curB = "0x25E40000 + ?c"
  have uA: "unat ?curA = 0x25E00000 + unat ?sz"
    using szb by (simp add: unat_add_lem [THEN iffD1])
  have uB: "unat ?curB = 0x25E40000 + unat ?c"
    using cell by (simp add: unat_add_lem [THEN iffD1])
  let ?offA = "addrOffset ?curA ?pg" and ?offB = "addrOffset ?curB 32"
  have oA: "unat ?offA < 0x10000"
    using addrOffset_less [OF pgnz, of ?curA] pgb by simp
  have oB: "unat ?offB < 32"
    using addrOffset_less [of 32 ?curB] by simp
  have info2: "GetInfo t2 = ?info" by (rule same)
  have a1: "VDP2_VRAM_A0 saturn \<le> currentBot S1 A0" "currentBot S1 A0 \<noteq> 0"
    using uA by (simp_all add: L1 saturn_simps word_le_nat_alt unat_eq_zero [symmetric])
  have a2: "unat (currentBot S1 A0) + unat (addrOffset (currentBot S1 A0) (MapAllocPageSz saturn (GetInfo t2)))
      + unat (MapAllocSz saturn (GetInfo t2)) \<le> unat (currentTop S1 A0)"
    using szb oA by (simp add: L1 info2 uA saturn_simps)
  have a3: "sint (bankCycles S1 A0) + 1 < 8" by (simp add: L1)
  have b1: "VDP2_VRAM_A0 saturn \<le> currentBot S1 B0" "currentBot S1 B0 \<noteq> 0"
    using uB by (simp_all add: L1 saturn_simps word_le_nat_alt unat_eq_zero [symmetric])
  have b2: "unat (currentBot S1 B0) + unat (addrOffset (currentBot S1 B0) 32)
      + unat (CellByteSize (GetInfo t2)) \<le> unat (currentTop S1 B0)"
    using cell oB by (simp add: L1 info2 uB saturn_simps)
  have b3: "sint (bankCycles S1 B0) + uint (reqCycles (ColorMode (GetInfo t2))) < 8"
    by (simp add: L1 info2 rq)
  have um: "MapAddress (screens S1 scr2) < VDP2_VRAM_A0 saturn"
    using un scr(3) by (simp add: L1 z)
  have uc: "CellAddress (screens S1 scr2) < VDP2_VRAM_A0 saturn"
    using un scr(3) by (simp add: L1 z)
  have p2: "TilePalette (screens S1 scr2) = None"
    using scr(3) by (simp add: L1 z)
  have nrgb2: "ColorMode (GetInfo t2) \<noteq> RGB555" by (simp add: info2 col)
  note R2 = LoadTilemap_auto [of scr2 S1 saturn t2 fb2, OF scr(2) um uc nrgb2 p2 fb(2) a1 a2 a3 b1 b2 b3,
      folded S2_def, unfolded info2]
  have cb: "currentBot S2 = (bankBot saturn)(A0 := ?curA + (?sz + ?offA), B0 := ?curB + (?c + ?offB))"
    using R2(1) by (simp add: L1)
  have cbA: "currentBot S2 A0 = ?curA + (?sz + ?offA)"
    and cbB: "currentBot S2 B0 = ?curB + (?c + ?offB)"
    unfolding cb by simp_all
  have m2: "MapAddress (screens S2 scr2) = ?curA + ?offA"
    and c2: "CellAddress (screens S2 scr2) = ?curB + ?offB"
    and m1: "MapAddress (screens S2 scr1) = 0x25E00000"
    and c1: "CellAddress (screens S2 scr1) = 0x25E40000"
    using scr(3) by (simp_all add: R2(4) L1)
  have um2: "unat (?curA + ?offA) = 0x25E00000 + unat ?sz + unat ?offA"
    using szb oA uA by (simp add: unat_add_lem [THEN iffD1])
  have ue2: "unat (?curA + (?sz + ?offA)) = 0x25E00000 + unat ?sz + unat ?offA + unat ?sz"
  proof -
    have s1: "unat (?sz + ?offA) = unat ?sz + unat ?offA"
      using szb oA by (simp add: unat_add_lem [THEN iffD1])
    have "unat ?curA + unat (?sz + ?offA) < 2 ^ 32"
      unfolding s1 uA using szb oA by simp
    then have "unat (?curA + (?sz + ?offA)) = unat ?curA + unat (?sz + ?offA)"
      by (rule unat_add32)
    then show ?thesis unfolding s1 uA by simp
  qed
  have uc2: "unat (?curB + ?offB) = 0x25E40000 + unat ?c + unat ?offB"
    using cell oB uB by (simp add: unat_add_lem [THEN iffD1])
  have uf2: "unat (?curB + (?c + ?offB)) = 0x25E40000 + unat ?c + unat ?offB + unat ?c"
  proof -
    have s1: "unat (?c + ?offB) = unat ?c + unat ?offB"
      using cell oB by (simp add: unat_add_lem [THEN iffD1])
    have "unat ?curB + unat (?c + ?offB) < 2 ^ 32"
      unfolding s1 uB using cell oB by simp
    then have "unat (?curB + (?c + ?offB)) = unat ?curB + unat (?c + ?offB)"
      by (rule unat_add32)
    then show ?thesis unfolding s1 uB by simp
  qed
  show "asserted (LoadTwo saturn scr1 t1 fb1 scr2 t2 fb2 s) = asserted (ClearVRAM saturn s)"
    unfolding S2 using R2(5) L1(5) by (simp add: s0_def)
  show "MapAddress (screens (LoadTwo saturn scr1 t1 fb1 scr2 t2 fb2 s) scr1) = 0x25E00000"
    unfolding S2 by (rule m1)
  show "CellAddress (screens (LoadTwo saturn scr1 t1 fb1 scr2 t2 fb2 s) scr1) = 0x25E40000"
    unfolding S2 by (rule c1)
  show "0x25E00000 + unat ?sz
           \<le> unat (MapAddress (screens (LoadTwo saturn scr1 t1 fb1 scr2 t2 fb2 s) scr2))"
    unfolding S2 m2 um2 by simp
  show "unat (MapAddress (screens (LoadTwo saturn scr1 t1 fb1 scr2 t2 fb2 s) scr2)) + unat ?sz
         = unat (currentBot (LoadTwo saturn scr1 t1 fb1 scr2 t2 fb2 s) A0)"
    unfolding S2 m2 um2 cbA ue2 by simp
  show "unat (currentBot (LoadTwo saturn scr1 t1 fb1 scr2 t2 fb2 s) A0) \<le> 0x25E20000"
    unfolding S2 cbA ue2 using szb oA by simp
  show "0x25E40000 + unat ?c
           \<le> unat (CellAddress (screens (LoadTwo saturn scr1 t1 fb1 scr2 t2 fb2 s) scr2))"
    unfolding S2 c2 uc2 by simp
  show "unat (CellAddress (screens (LoadTwo saturn scr1 t1 fb1 scr2 t2 fb2 s) scr2)) + unat ?c
         = unat (currentBot (LoadTwo saturn scr1 t1 fb1 scr2 t2 fb2 s) B0)"
    unfolding S2 c2 uc2 cbB uf2 by simp
  show "unat (currentBot (LoadTwo saturn scr1 t1 fb1 scr2 t2 fb2 s) B0) \<le> 0x25E60000"
    unfolding S2 cbB uf2 using cell oB by simp
  show "bankCycles (LoadTilemap saturn scr1 t1 fb1 (ClearVRAM saturn s)) A0 = 0"
    "bankCycles (LoadTilemap saturn scr1 t1 fb1 (ClearVRAM saturn s)) B0 = 1"
    unfolding s0_def [symmetric] S1_def [symmetric] by (simp_all add: L1)
  show "bankCycles (LoadTwo saturn scr1 t1 fb1 scr2 t2 fb2 s) A0 = 1"
    "bankCycles (LoadTwo saturn scr1 t1 fb1 scr2 t2 fb2 s) B0 = 3"
    "bankCycles (LoadTwo saturn scr1 t1 fb1 scr2 t2 fb2 s) A1 = - 1"
    "bankCycles (LoadTwo saturn scr1 t1 fb1 scr2 t2 fb2 s) B1 = 1"
    unfolding S2 by (simp_all add: R2(2) L1 rq)
  show "currentBot (LoadTwo saturn scr1 t1 fb1 scr2 t2 fb2 s) A1 = 0x25E20000"
    "currentBot (LoadTwo saturn scr1 t1 fb1 scr2 t2 fb2 s) B1 = 0x25E60000"
    unfolding S2 by (simp_all add: cb saturn_simps)
qed

lemma tilemap64_info: "GetInfo tilemap64 = info64"
  by (simp add: tilemap64_def)

section \<open>Claims about loading\<close>

text \<open>
  Claim C4, as the code has it, on the Saturn's memory map. After a reset, load two
  different ordinary layers from tilemaps with the same description: 8-bit indexed
  colour, 64 by 64 tiles, at most 0xFFE0 bytes of cell data, any cell size, map-entry
  mode and plane size; the palette collaborator grants a bank each time. Both loads
  succeed: nothing reaches the assert screen and all four addresses are allocated. The
  two maps lie one after the other in bank A0 and the two cell regions one after the
  other in bank B0, so the four regions do not overlap. Each layer adds 2 cycles to the
  counter of bank B0, where its cells are (-1, then 1, then 3), and 1 cycle to the
  counter of bank A0, where its map is (-1, then 0, then 1). Banks A1 and B1 are left as
  the reset left them. Bank A0, the first bank that \<open>RBG0\<close> tries, is not left untouched:
  \<open>AutoAllocateMap\<close> puts the maps of ordinary layers there unless its counter is 7.
\<close>

theorem LoadTwo_layers:
  assumes "scr1 \<noteq> scnRBG0" and "scr2 \<noteq> scnRBG0" and "scr1 \<noteq> scr2"
    and "GetInfo t2 = GetInfo t1"
    and "ColorMode (GetInfo t1) = Paletted256"
    and "MapWidth (GetInfo t1) = 64" and "MapHeight (GetInfo t1) = 64"
    and "unat (CellByteSize (GetInfo t1)) \<le> 0xFFE0"
    and "0 \<le> fb1" and "0 \<le> fb2"
  shows "asserted (LoadTwo saturn scr1 t1 fb1 scr2 t2 fb2 s) = asserted (ClearVRAM saturn s)
     \<and> VDP2_VRAM_A0 saturn \<le> MapAddress (screens (LoadTwo saturn scr1 t1 fb1 scr2 t2 fb2 s) scr1)
     \<and> unat (MapAddress (screens (LoadTwo saturn scr1 t1 fb1 scr2 t2 fb2 s) scr1))
          + unat (MapAllocSz saturn (GetInfo t1))
        \<le> unat (MapAddress (screens (LoadTwo saturn scr1 t1 fb1 scr2 t2 fb2 s) scr2))
     \<and> unat (MapAddress (screens (LoadTwo saturn scr1 t1 fb1 scr2 t2 fb2 s) scr2))
          + unat (MapAllocSz saturn (GetInfo t1))
        \<le> unat (bankTop saturn A0)
     \<and> unat (bankTop saturn A0) \<le> unat (bankBot saturn B0)
     \<and> unat (bankBot saturn B0) \<le> unat (CellAddress (screens (LoadTwo saturn scr1 t1 fb1 scr2 t2 fb2 s) scr1))
     \<and> unat (CellAddress (screens (LoadTwo saturn scr1 t1 fb1 scr2 t2 fb2 s) scr1))
          + unat (CellByteSize (GetInfo t1))
        \<le> unat (CellAddress (screens (LoadTwo saturn scr1 t1 fb1 scr2 t2 fb2 s) scr2))
     \<and> unat (CellAddress (screens (LoadTwo saturn scr1 t1 fb1 scr2 t2 fb2 s) scr2))
          + unat (CellByteSize (GetInfo t1))
        \<le> unat (bankTop saturn B0)
     \<and> sint (bankCycles (ClearVRAM saturn s) B0) = - 1
     \<and> sint (bankCycles (LoadTilemap saturn scr1 t1 fb1 (ClearVRAM saturn s)) B0) = 1
     \<and> sint (bankCycles (LoadTwo saturn scr1 t1 fb1 scr2 t2 fb2 s) B0) = 3
     \<and> sint (bankCycles (ClearVRAM saturn s) A0) = - 1
     \<and> sint (bankCycles (LoadTilemap saturn scr1 t1 fb1 (ClearVRAM saturn s)) A0) = 0
     \<and> sint (bankCycles (LoadTwo saturn scr1 t1 fb1 scr2 t2 fb2 s) A0) = 1
     \<and> currentBot (LoadTwo saturn scr1 t1 fb1 scr2 t2 fb2 s) A1 = currentBot (ClearVRAM saturn s) A1
     \<and> bankCycles (LoadTwo saturn scr1 t1 fb1 scr2 t2 fb2 s) A1 = bankCycles (ClearVRAM saturn s) A1
     \<and> currentBot (LoadTwo saturn scr1 t1 fb1 scr2 t2 fb2 s) B1 = currentBot (ClearVRAM saturn s) B1
     \<and> bankCycles (LoadTwo saturn scr1 t1 fb1 scr2 t2 fb2 s) B1 = bankCycles (ClearVRAM saturn s) B1"
proof -
  note L = load_two_layers [OF assms, of s]
  let ?S = "LoadTwo saturn scr1 t1 fb1 scr2 t2 fb2 s"
  have m1: "unat (MapAddress (screens ?S scr1)) = 0x25E00000" by (simp add: L(2))
  have c1: "unat (CellAddress (screens ?S scr1)) = 0x25E40000" by (simp add: L(3))
  have g1: "VDP2_VRAM_A0 saturn \<le> MapAddress (screens ?S scr1)" by (simp add: L(2) saturn_simps)
  have g2: "unat (MapAddress (screens ?S scr1)) + unat (MapAllocSz saturn (GetInfo t1))
      \<le> unat (MapAddress (screens ?S scr2))" unfolding m1 by (rule L(4))
  have g3: "unat (MapAddress (screens ?S scr2)) + unat (MapAllocSz saturn (GetInfo t1))
      \<le> unat (bankTop saturn A0)" using L(5) L(6) by (simp add: saturn_simps)
  have g4: "unat (bankTop saturn A0) \<le> unat (bankBot saturn B0)" by (simp add: saturn_simps)
  have g5: "unat (bankBot saturn B0) \<le> unat (CellAddress (screens ?S scr1))"
    unfolding c1 by (simp add: saturn_simps)
  have g6: "unat (CellAddress (screens ?S scr1)) + unat (CellByteSize (GetInfo t1))
      \<le> unat (CellAddress (screens ?S scr2))" unfolding c1 by (rule L(7))
  have g7: "unat (CellAddress (screens ?S scr2)) + unat (CellByteSize (GetInfo t1))
      \<le> unat (bankTop saturn B0)" using L(8) L(9) by (simp add: saturn_simps)
  have cy: "sint (bankCycles (ClearVRAM saturn s) B0) = - 1"
    "sint (bankCycles (LoadTilemap saturn scr1 t1 fb1 (ClearVRAM saturn s)) B0) = 1"
    "sint (bankCycles ?S B0) = 3"
    "sint (bankCycles (ClearVRAM saturn s) A0) = - 1"
    "sint (bankCycles (LoadTilemap saturn scr1 t1 fb1 (ClearVRAM saturn s)) A0) = 0"
    "sint (bankCycles ?S A0) = 1"
    by (simp_all add: L(10-13))
  have un: "currentBot ?S A1 = currentBot (ClearVRAM saturn s) A1"
    "bankCycles ?S A1 = bankCycles (ClearVRAM saturn s) A1"
    "currentBot ?S B1 = currentBot (ClearVRAM saturn s) B1"
    "bankCycles ?S B1 = bankCycles (ClearVRAM saturn s) B1"
    by (simp_all add: L(14-17) saturn_simps)
  from L(1) g1 g2 g3 g4 g5 g6 g7 cy un show ?thesis by (intro conjI)
qed

text \<open>\<open>NBG0\<close> and \<open>NBG1\<close> loading \<open>tilemap64\<close> from program start.\<close>

theorem LoadTwo_layers_witness:
  "scnNBG0 \<noteq> scnRBG0 \<and> scnNBG1 \<noteq> scnRBG0 \<and> scnNBG0 \<noteq> scnNBG1
   \<and> GetInfo tilemap64 = GetInfo tilemap64
   \<and> ColorMode (GetInfo tilemap64) = Paletted256
   \<and> MapWidth (GetInfo tilemap64) = 64 \<and> MapHeight (GetInfo tilemap64) = 64
   \<and> unat (CellByteSize (GetInfo tilemap64)) \<le> 0xFFE0
   \<and> (0 :: int) \<le> 1 \<and> (0 :: int) \<le> 2
   \<and> asserted (LoadTwo saturn scnNBG0 tilemap64 1 scnNBG1 tilemap64 2 (VDP2_init saturn 0)) = []
   \<and> sint (bankCycles (LoadTwo saturn scnNBG0 tilemap64 1 scnNBG1 tilemap64 2 (VDP2_init saturn 0)) B0) = 3
   \<and> unat (MapAddress (screens (LoadTwo saturn scnNBG0 tilemap64 1 scnNBG1 tilemap64 2 (VDP2_init saturn 0)) scnNBG0))
        + unat (MapAllocSz saturn (GetInfo tilemap64))
      \<le> unat (MapAddress (screens (LoadTwo saturn scnNBG0 tilemap64 1 scnNBG1 tilemap64 2 (VDP2_init saturn 0)) scnNBG1))"
proof -
  have h: "scnNBG0 \<noteq> scnRBG0" "scnNBG1 \<noteq> scnRBG0" "scnNBG0 \<noteq> scnNBG1"
    "GetInfo tilemap64 = GetInfo tilemap64"
    "ColorMode (GetInfo tilemap64) = Paletted256"
    "MapWidth (GetInfo tilemap64) = 64" "MapHeight (GetInfo tilemap64) = 64"
    "unat (CellByteSize (GetInfo tilemap64)) \<le> 0xFFE0"
    "(0 :: int) \<le> 1" "(0 :: int) \<le> 2"
    by (simp_all add: tilemap64_info info64_simps)
  note T = LoadTwo_layers [OF h, of "VDP2_init saturn 0"]
  have a0: "asserted (ClearVRAM saturn (VDP2_init saturn 0)) = []"
    by (simp add: asserted_def ClearVRAM_def ClearBank_def ClearScreen_def Let_def VDP2_init_def
        ScrollScreen_init_def)
  from T have c1: "asserted (LoadTwo saturn scnNBG0 tilemap64 1 scnNBG1 tilemap64 2 (VDP2_init saturn 0)) = []"
    unfolding a0 by blast
  from T have c2: "sint (bankCycles (LoadTwo saturn scnNBG0 tilemap64 1 scnNBG1 tilemap64 2 (VDP2_init saturn 0)) B0) = 3"
    by blast
  from T have c3: "unat (MapAddress (screens (LoadTwo saturn scnNBG0 tilemap64 1 scnNBG1 tilemap64 2 (VDP2_init saturn 0)) scnNBG0))
        + unat (MapAllocSz saturn (GetInfo tilemap64))
      \<le> unat (MapAddress (screens (LoadTwo saturn scnNBG0 tilemap64 1 scnNBG1 tilemap64 2 (VDP2_init saturn 0)) scnNBG1))"
    by blast
  from h c1 c2 c3 show ?thesis by (intro conjI)
qed

text \<open>Claim C4 as stated fails: after \<open>NBG0\<close> and \<open>NBG1\<close> have loaded \<open>tilemap64\<close>, bank
  A0, the first bank of \<open>RBG0\<close>'s fallback order, has a counter of 1 instead of -1 and a
  bump offset above the reset one.\<close>

theorem LoadTwo_bank_A0_counterexample:
  "bankCycles (LoadTwo saturn scnNBG0 tilemap64 1 scnNBG1 tilemap64 2 (VDP2_init saturn 0)) A0
     \<noteq> bankCycles (ClearVRAM saturn (VDP2_init saturn 0)) A0
   \<and> unat (currentBot (ClearVRAM saturn (VDP2_init saturn 0)) A0)
       < unat (currentBot (LoadTwo saturn scnNBG0 tilemap64 1 scnNBG1 tilemap64 2 (VDP2_init saturn 0)) A0)
   \<and> sint (bankCycles (LoadTwo saturn scnNBG0 tilemap64 1 scnNBG1 tilemap64 2 (VDP2_init saturn 0)) A0) = 1"
proof -
  have h: "scnNBG0 \<noteq> scnRBG0" "scnNBG1 \<noteq> scnRBG0" "scnNBG0 \<noteq> scnNBG1"
    "GetInfo tilemap64 = GetInfo tilemap64"
    "ColorMode (GetInfo tilemap64) = Paletted256"
    "MapWidth (GetInfo tilemap64) = 64" "MapHeight (GetInfo tilemap64) = 64"
    "unat (CellByteSize (GetInfo tilemap64)) \<le> 0xFFE0"
    "(0 :: int) \<le> 1" "(0 :: int) \<le> 2"
    by (simp_all add: tilemap64_info info64_simps)
  note L = load_two_layers [OF h, of "VDP2_init saturn 0"]
  let ?S = "LoadTwo saturn scnNBG0 tilemap64 1 scnNBG1 tilemap64 2 (VDP2_init saturn 0)"
  have a: "bankCycles ?S A0 \<noteq> bankCycles (ClearVRAM saturn (VDP2_init saturn 0)) A0"
    by (simp add: L(12))
  have b: "unat (currentBot (ClearVRAM saturn (VDP2_init saturn 0)) A0) < unat (currentBot ?S A0)"
  proof -
    have "0x2000 \<le> unat (MapAllocSz saturn (GetInfo tilemap64))"
      using MapAllocSz_nat [of saturn "GetInfo tilemap64"]
      by (simp add: tilemap64_info info64_simps saturn_simps)
    then show ?thesis using L(4) L(5) by (simp add: saturn_simps)
  qed
  have c: "sint (bankCycles ?S A0) = 1" by (simp add: L(12))
  from a b c show ?thesis by (intro conjI)
qed

text \<open>
  Claim C7. The arguments of the \<open>SetMapLayout\<close> call in \<open>SetPlanesDefault\<close> are a
  function of map width, map height, cell size and plane size alone, and one of four
  patterns: all planes 0 when the map is neither wider nor taller than the plane extent,
  the horizontal pair 0 1 0 1 when it is wider and not taller, the vertical pair 0 0 1 1
  when it is taller and not wider, and 0 1 2 3 when it is both. The plane extent is 32 by
  32 tiles, doubled in both directions for the 1x1 cell size, doubled in both directions
  for the 2x2 plane size and doubled in width alone for the 2x1 plane size. With 2x2
  cells and 2x2 planes the extent is 64 by 64: a map of 64 by 64 tiles selects all planes
  0, a map of 128 by 64 the horizontal pair. With 2x2 cells and 1x1 planes the extent
  stays 32 by 32 and the map of 64 by 64 tiles selects 0 1 2 3. For an ordinary layer
  \<open>SetPlanesDefault\<close> hands the four plane addresses to \<open>slMapNbg\<close>. \<open>LoadTilemap\<close> skips
  the selection for \<open>RBG0\<close>: the only plane call it may add is the \<open>sl1MapRA\<close> of
  \<open>RBG0::Init\<close>, with the map address.
\<close>

theorem PlanesDefault_patterns:
  "(PlanesDefault K info = (0, 0, 0, 0) \<or> PlanesDefault K info = (0, 1, 0, 1)
      \<or> PlanesDefault K info = (0, 0, 1, 1) \<or> PlanesDefault K info = (0, 1, 2, 3))
   \<and> (MapWidth info = MapWidth info' \<and> MapHeight info = MapHeight info'
        \<and> CharSize info = CharSize info' \<and> PlaneSize info = PlaneSize info' \<longrightarrow>
          PlanesDefault K info = PlanesDefault K info')
   \<and> (PlanesDefault K info = (0, 0, 0, 0)
        \<longleftrightarrow> uint (MapWidth info) \<le> fst (PlaneExtent K info) \<and> uint (MapHeight info) \<le> snd (PlaneExtent K info))
   \<and> (PlanesDefault K info = (0, 1, 0, 1)
        \<longleftrightarrow> fst (PlaneExtent K info) < uint (MapWidth info) \<and> uint (MapHeight info) \<le> snd (PlaneExtent K info))
   \<and> (PlanesDefault K info = (0, 0, 1, 1)
        \<longleftrightarrow> uint (MapWidth info) \<le> fst (PlaneExtent K info) \<and> snd (PlaneExtent K info) < uint (MapHeight info))
   \<and> (PlanesDefault K info = (0, 1, 2, 3)
        \<longleftrightarrow> fst (PlaneExtent K info) < uint (MapWidth info) \<and> snd (PlaneExtent K info) < uint (MapHeight info))
   \<and> (CharSize info \<noteq> CHAR_SIZE_1x1 K \<and> PlaneSize info = PL_SIZE_2x2 K \<longrightarrow> PlaneExtent K info = (64, 64))
   \<and> (PlaneExtent K info = (64, 64) \<and> MapWidth info = 64 \<and> MapHeight info = 64 \<longrightarrow>
        PlanesDefault K info = (0, 0, 0, 0))
   \<and> (PlaneExtent K info = (64, 64) \<and> MapWidth info = 128 \<and> MapHeight info = 64 \<longrightarrow>
        PlanesDefault K info = (0, 1, 0, 1))
   \<and> (scr \<noteq> scnRBG0 \<longrightarrow>
        calls (SetPlanesDefault K scr info s)
          = calls s @ [case PlanesDefault K info of (a, b, c, d) \<Rightarrow>
                         slMapNbg scr (GetPlaneAddress K scr a s) (GetPlaneAddress K scr b s)
                           (GetPlaneAddress K scr c s) (GetPlaneAddress K scr d s)])
   \<and> (plane_calls (LoadTilemap K scnRBG0 tilemap freeBank s) = plane_calls s
      \<or> plane_calls (LoadTilemap K scnRBG0 tilemap freeBank s)
          = plane_calls s
            @ [sl1MapRA (MapAddress (screens (LoadTilemap K scnRBG0 tilemap freeBank s) scnRBG0))])
   \<and> PlaneExtent K info
       = (32 * (if CharSize info = CHAR_SIZE_1x1 K then 2 else 1)
             * (if PlaneSize info = PL_SIZE_2x2 K \<or> PlaneSize info = PL_SIZE_2x1 K then 2 else 1),
          32 * (if CharSize info = CHAR_SIZE_1x1 K then 2 else 1)
             * (if PlaneSize info = PL_SIZE_2x2 K then 2 else 1))
   \<and> (CharSize info \<noteq> CHAR_SIZE_1x1 K \<and> PlaneSize info = PL_SIZE_2x2 K
        \<and> MapWidth info = 64 \<and> MapHeight info = 64 \<longrightarrow> PlanesDefault K info = (0, 0, 0, 0))
   \<and> (CharSize info \<noteq> CHAR_SIZE_1x1 K \<and> PlaneSize info = PL_SIZE_2x2 K
        \<and> MapWidth info = 128 \<and> MapHeight info = 64 \<longrightarrow> PlanesDefault K info = (0, 1, 0, 1))
   \<and> (CharSize info \<noteq> CHAR_SIZE_1x1 K \<and> PlaneSize info \<noteq> PL_SIZE_2x2 K
        \<and> PlaneSize info \<noteq> PL_SIZE_2x1 K \<and> MapWidth info = 64 \<and> MapHeight info = 64 \<longrightarrow>
          PlaneExtent K info = (32, 32) \<and> PlanesDefault K info = (0, 1, 2, 3))"
proof -
  have a: "PlanesDefault K info = (0, 0, 0, 0) \<or> PlanesDefault K info = (0, 1, 0, 1)
      \<or> PlanesDefault K info = (0, 0, 1, 1) \<or> PlanesDefault K info = (0, 1, 2, 3)"
    by (simp add: PlanesDefault_def split_beta)
  have b: "MapWidth info = MapWidth info' \<and> MapHeight info = MapHeight info'
        \<and> CharSize info = CharSize info' \<and> PlaneSize info = PlaneSize info' \<longrightarrow>
          PlanesDefault K info = PlanesDefault K info'"
    by (simp add: PlanesDefault_def PlaneExtent_def)
  have c: "PlanesDefault K info = (0, 0, 0, 0)
        \<longleftrightarrow> uint (MapWidth info) \<le> fst (PlaneExtent K info) \<and> uint (MapHeight info) \<le> snd (PlaneExtent K info)"
    "PlanesDefault K info = (0, 1, 0, 1)
        \<longleftrightarrow> fst (PlaneExtent K info) < uint (MapWidth info) \<and> uint (MapHeight info) \<le> snd (PlaneExtent K info)"
    "PlanesDefault K info = (0, 0, 1, 1)
        \<longleftrightarrow> uint (MapWidth info) \<le> fst (PlaneExtent K info) \<and> snd (PlaneExtent K info) < uint (MapHeight info)"
    "PlanesDefault K info = (0, 1, 2, 3)
        \<longleftrightarrow> fst (PlaneExtent K info) < uint (MapWidth info) \<and> snd (PlaneExtent K info) < uint (MapHeight info)"
    by (auto simp: PlanesDefault_def split_beta)
  have d: "CharSize info \<noteq> CHAR_SIZE_1x1 K \<and> PlaneSize info = PL_SIZE_2x2 K \<longrightarrow> PlaneExtent K info = (64, 64)"
    by (simp add: PlaneExtent_def)
  have e: "PlaneExtent K info = (64, 64) \<and> MapWidth info = 64 \<and> MapHeight info = 64 \<longrightarrow>
        PlanesDefault K info = (0, 0, 0, 0)"
    "PlaneExtent K info = (64, 64) \<and> MapWidth info = 128 \<and> MapHeight info = 64 \<longrightarrow>
        PlanesDefault K info = (0, 1, 0, 1)"
    by (simp_all add: PlanesDefault_def)
  have f: "scr \<noteq> scnRBG0 \<longrightarrow>
        calls (SetPlanesDefault K scr info s)
          = calls s @ [case PlanesDefault K info of (a, b, c, d) \<Rightarrow>
                         slMapNbg scr (GetPlaneAddress K scr a s) (GetPlaneAddress K scr b s)
                           (GetPlaneAddress K scr c s) (GetPlaneAddress K scr d s)]"
    by (simp add: SetPlanesDefault_def SetMapLayout_def SetPlanes_def split_beta)
  note g = LoadTilemap_RBG0_planes [of K tilemap freeBank s]
  have h: "PlaneExtent K info
       = (32 * (if CharSize info = CHAR_SIZE_1x1 K then 2 else 1)
             * (if PlaneSize info = PL_SIZE_2x2 K \<or> PlaneSize info = PL_SIZE_2x1 K then 2 else 1),
          32 * (if CharSize info = CHAR_SIZE_1x1 K then 2 else 1)
             * (if PlaneSize info = PL_SIZE_2x2 K then 2 else 1))"
    by (simp add: PlaneExtent_def)
  have i: "CharSize info \<noteq> CHAR_SIZE_1x1 K \<and> PlaneSize info = PL_SIZE_2x2 K
        \<and> MapWidth info = 64 \<and> MapHeight info = 64 \<longrightarrow> PlanesDefault K info = (0, 0, 0, 0)"
    "CharSize info \<noteq> CHAR_SIZE_1x1 K \<and> PlaneSize info = PL_SIZE_2x2 K
        \<and> MapWidth info = 128 \<and> MapHeight info = 64 \<longrightarrow> PlanesDefault K info = (0, 1, 0, 1)"
    by (simp_all add: PlanesDefault_def PlaneExtent_def)
  have j: "CharSize info \<noteq> CHAR_SIZE_1x1 K \<and> PlaneSize info \<noteq> PL_SIZE_2x2 K
        \<and> PlaneSize info \<noteq> PL_SIZE_2x1 K \<and> MapWidth info = 64 \<and> MapHeight info = 64 \<longrightarrow>
          PlaneExtent K info = (32, 32) \<and> PlanesDefault K info = (0, 1, 2, 3)"
    by (simp add: PlanesDefault_def PlaneExtent_def)
  from a b c d e f g h i j show ?thesis by (intro conjI)
qed

text \<open>Descriptions with 2x2 cells on the Saturn. With 2x2 planes, 64 by 64 tiles fit one
  plane and 128 by 64 tiles take the horizontal pair; with 1x1 planes the extent is 32 by
  32 and 64 by 64 tiles take four planes. Right after a reset the four plane addresses
  of \<open>NBG0\<close> are \<open>nullptr\<close>; with the map of \<open>NBG0\<close> at the start of bank A0 the four
  planes of the last description are 0x4000 bytes apart.\<close>

theorem PlanesDefault_patterns_witness:
  "CharSize (info64\<lparr>CharSize := 1, PlaneSize := 3\<rparr>) \<noteq> CHAR_SIZE_1x1 saturn
   \<and> PlaneSize (info64\<lparr>CharSize := 1, PlaneSize := 3\<rparr>) = PL_SIZE_2x2 saturn
   \<and> MapWidth (info64\<lparr>CharSize := 1, PlaneSize := 3\<rparr>) = 64
   \<and> MapHeight (info64\<lparr>CharSize := 1, PlaneSize := 3\<rparr>) = 64
   \<and> PlaneExtent saturn (info64\<lparr>CharSize := 1, PlaneSize := 3\<rparr>) = (64, 64)
   \<and> PlanesDefault saturn (info64\<lparr>CharSize := 1, PlaneSize := 3\<rparr>) = (0, 0, 0, 0)
   \<and> MapWidth (info64\<lparr>CharSize := 1, PlaneSize := 3, MapWidth := 128\<rparr>) = 128
   \<and> MapHeight (info64\<lparr>CharSize := 1, PlaneSize := 3, MapWidth := 128\<rparr>) = 64
   \<and> PlaneExtent saturn (info64\<lparr>CharSize := 1, PlaneSize := 3, MapWidth := 128\<rparr>) = (64, 64)
   \<and> PlanesDefault saturn (info64\<lparr>CharSize := 1, PlaneSize := 3, MapWidth := 128\<rparr>) = (0, 1, 0, 1)
   \<and> PlanesDefault saturn (info64\<lparr>CharSize := 1, PlaneSize := 3\<rparr>)
       = PlanesDefault saturn (info64\<lparr>CharSize := 1, PlaneSize := 3, ColorMode := RGB555\<rparr>)
   \<and> scnNBG0 \<noteq> scnRBG0
   \<and> calls (SetPlanesDefault saturn scnNBG0 (info64\<lparr>CharSize := 1, PlaneSize := 3\<rparr>) fresh)
       = calls fresh @ [slMapNbg scnNBG0 nullptr nullptr nullptr nullptr]
   \<and> CharSize (info64\<lparr>CharSize := 1\<rparr>) \<noteq> CHAR_SIZE_1x1 saturn
   \<and> PlaneSize (info64\<lparr>CharSize := 1\<rparr>) \<noteq> PL_SIZE_2x2 saturn
   \<and> PlaneSize (info64\<lparr>CharSize := 1\<rparr>) \<noteq> PL_SIZE_2x1 saturn
   \<and> MapWidth (info64\<lparr>CharSize := 1\<rparr>) = 64 \<and> MapHeight (info64\<lparr>CharSize := 1\<rparr>) = 64
   \<and> PlaneExtent saturn (info64\<lparr>CharSize := 1\<rparr>) = (32, 32)
   \<and> PlanesDefault saturn (info64\<lparr>CharSize := 1\<rparr>) = (0, 1, 2, 3)
   \<and> PlaneExtent saturn (info64\<lparr>CharSize := 1, PlaneSize := 1\<rparr>) = (64, 32)
   \<and> PlaneExtent saturn info64 = (64, 64)
   \<and> PlaneExtent saturn (info64\<lparr>PlaneSize := 3\<rparr>) = (128, 128)
   \<and> calls (SetPlanesDefault saturn scnNBG0 (info64\<lparr>CharSize := 1\<rparr>)
              (snd (SetMapAddress scnNBG0 0x25E00000 0x10000 fresh)))
       = calls (snd (SetMapAddress scnNBG0 0x25E00000 0x10000 fresh))
         @ [slMapNbg scnNBG0 0x25E00000 0x25E04000 0x25E08000 0x25E0C000]"
proof -
  let ?a = "info64\<lparr>CharSize := 1, PlaneSize := 3\<rparr>"
  let ?b = "info64\<lparr>CharSize := 1, PlaneSize := 3, MapWidth := 128\<rparr>"
  let ?c = "info64\<lparr>CharSize := 1, PlaneSize := 3, ColorMode := RGB555\<rparr>"
  let ?d = "info64\<lparr>CharSize := 1\<rparr>"
  let ?m = "snd (SetMapAddress scnNBG0 0x25E00000 0x10000 fresh)"
  have h1: "CharSize ?a \<noteq> CHAR_SIZE_1x1 saturn \<and> PlaneSize ?a = PL_SIZE_2x2 saturn"
    by (simp add: saturn_simps)
  have h2: "MapWidth ?a = 64" "MapHeight ?a = 64" by (simp_all add: info64_simps)
  have h3: "CharSize ?b \<noteq> CHAR_SIZE_1x1 saturn \<and> PlaneSize ?b = PL_SIZE_2x2 saturn"
    by (simp add: saturn_simps)
  have h4: "MapWidth ?b = 128" "MapHeight ?b = 64" by (simp_all add: info64_simps)
  have h5: "MapWidth ?a = MapWidth ?c \<and> MapHeight ?a = MapHeight ?c
      \<and> CharSize ?a = CharSize ?c \<and> PlaneSize ?a = PlaneSize ?c" by simp
  have h6: "scnNBG0 \<noteq> scnRBG0" by simp
  have h7: "CharSize ?d \<noteq> CHAR_SIZE_1x1 saturn" "PlaneSize ?d \<noteq> PL_SIZE_2x2 saturn"
    "PlaneSize ?d \<noteq> PL_SIZE_2x1 saturn" "MapWidth ?d = 64" "MapHeight ?d = 64"
    by (simp_all add: info64_simps saturn_simps)
  note A = PlanesDefault_patterns [of saturn ?a ?c scnNBG0 fresh tilemap64 0]
  note B = PlanesDefault_patterns [of saturn ?b ?c scnNBG0 fresh tilemap64 0]
  note D = PlanesDefault_patterns [of saturn ?d ?c scnNBG0 ?m tilemap64 0]
  note E = PlanesDefault_patterns [of saturn "info64\<lparr>CharSize := 1, PlaneSize := 1\<rparr>" ?c scnNBG0 fresh tilemap64 0]
  note F = PlanesDefault_patterns [of saturn info64 ?c scnNBG0 fresh tilemap64 0]
  note G = PlanesDefault_patterns [of saturn "info64\<lparr>PlaneSize := 3\<rparr>" ?c scnNBG0 fresh tilemap64 0]
  from A h1 have ea: "PlaneExtent saturn ?a = (64, 64)" by blast
  from A ea h2 have pa: "PlanesDefault saturn ?a = (0, 0, 0, 0)" by blast
  from B h3 have eb: "PlaneExtent saturn ?b = (64, 64)" by blast
  from B eb h4 have pb: "PlanesDefault saturn ?b = (0, 1, 0, 1)" by blast
  from A h5 have pc: "PlanesDefault saturn ?a = PlanesDefault saturn ?c" by blast
  from A h6 have "calls (SetPlanesDefault saturn scnNBG0 ?a fresh)
          = calls fresh @ [case PlanesDefault saturn ?a of (a, b, c, d) \<Rightarrow>
                         slMapNbg scnNBG0 (GetPlaneAddress saturn scnNBG0 a fresh)
                           (GetPlaneAddress saturn scnNBG0 b fresh)
                           (GetPlaneAddress saturn scnNBG0 c fresh)
                           (GetPlaneAddress saturn scnNBG0 d fresh)]" by blast
  then have sp: "calls (SetPlanesDefault saturn scnNBG0 ?a fresh)
       = calls fresh @ [slMapNbg scnNBG0 nullptr nullptr nullptr nullptr]"
    unfolding pa
    by (simp add: GetPlaneAddress_def fresh_screens ScrollScreen_init_def unallocated_def saturn_simps)
  from D h7 have ed: "PlaneExtent saturn ?d = (32, 32)" and pd: "PlanesDefault saturn ?d = (0, 1, 2, 3)"
    by blast+
  from E have ee: "PlaneExtent saturn (info64\<lparr>CharSize := 1, PlaneSize := 1\<rparr>) = (64, 32)"
    by (simp add: info64_simps saturn_simps)
  from F have ef: "PlaneExtent saturn info64 = (64, 64)"
    by (simp add: info64_simps saturn_simps)
  from G have eg: "PlaneExtent saturn (info64\<lparr>PlaneSize := 3\<rparr>) = (128, 128)"
    by (simp add: info64_simps saturn_simps)
  have m: "screens ?m scnNBG0 = (ScrollScreen_init saturn)\<lparr>MapAddress := 0x25E00000, MapAllocSize := 0x10000\<rparr>"
    by (simp add: SetMapAddress_def screen_upd_def fresh_screens)
  from D h6 have "calls (SetPlanesDefault saturn scnNBG0 ?d ?m)
          = calls ?m @ [case PlanesDefault saturn ?d of (a, b, c, d) \<Rightarrow>
                         slMapNbg scnNBG0 (GetPlaneAddress saturn scnNBG0 a ?m)
                           (GetPlaneAddress saturn scnNBG0 b ?m)
                           (GetPlaneAddress saturn scnNBG0 c ?m)
                           (GetPlaneAddress saturn scnNBG0 d ?m)]" by blast
  then have sm: "calls (SetPlanesDefault saturn scnNBG0 ?d ?m)
       = calls ?m @ [slMapNbg scnNBG0 0x25E00000 0x25E04000 0x25E08000 0x25E0C000]"
    unfolding pd GetPlaneAddress_def m
    by (simp add: ScrollScreen_init_def saturn_def)
  from h1 [THEN conjunct1] h1 [THEN conjunct2] h2 ea pa h4 eb pb pc h6 sp h7 ed pd ee ef eg sm
  show ?thesis by (intro conjI)
qed

end
